theory Spec2Isabelle
  imports Main "HOL-Library.Word"
begin

section \<open>Values, errors and the data model of \<^verbatim>\<open>client.ts\<close>\<close>

text \<open>
  JavaScript strings are modelled as \<^typ>\<open>string\<close>, file contents as lists of bytes.
  An optional property (\<^verbatim>\<open>text?: string\<close>) is an \<^typ>\<open>'a option\<close>, \<open>None\<close> standing for
  \<^verbatim>\<open>undefined\<close>. The conditions of the source test truthiness, not presence: an empty
  string is falsy, and so is the number zero.
\<close>

type_synonym byte = "8 word"

fun truthy :: "string option \<Rightarrow> bool" where
  "truthy None = False"
| "truthy (Some s) = (s \<noteq> [])"

text \<open>
  A parsed JSON document, as \<^verbatim>\<open>response.json()\<close> yields it. The numbers modelled are the
  integers (the program tests a number for being zero and otherwise hands it to the
  platform, to be printed or converted); an object keeps its members in order.
\<close>

datatype json =
    JNull
  | JBool bool
  | JNum int
  | JStr string
  | JArr "json list"
  | JObj "(string \<times> json) list"

text \<open>
  What the source throws. \<^verbatim>\<open>GeminiApiError\<close> is the class of the source with its \<^verbatim>\<open>status\<close>,
  a number wherever the declared types hold; \<open>GeminiApiErrorOf\<close> is the same class with a
  status that is some other value, which an unvalidated response can bring. The others are
  the runtime's errors (a property read on \<^verbatim>\<open>null\<close>, a body that is not JSON, a failed file
  or network operation), each with its message.
\<close>

datatype js_error =
    GeminiApiError int string
  | GeminiApiErrorOf json string
  | TypeError string
  | SyntaxError string
  | SystemError string

datatype ModelChoice = flash | pro

fun resolveModel :: "ModelChoice \<Rightarrow> string" where
  "resolveModel flash = ''gemini-2.5-flash-image''"
| "resolveModel pro = ''gemini-3-pro-image-preview''"

text \<open>The key of \<^verbatim>\<open>MODELS\<close> a choice is, as the handlers echo it.\<close>

fun choice_name :: "ModelChoice \<Rightarrow> string" where
  "choice_name flash = ''flash''"
| "choice_name pro = ''pro''"

record InlineData =
  mimeType :: string
  data :: string

record GeminiPart =
  "text" :: "string option"
  inlineData :: "InlineData option"

record GeminiContent =
  parts :: "GeminiPart list"
  role :: string

record GeminiCandidate =
  content :: GeminiContent

text \<open>
  The error descriptor of a response. The interface declares \<^verbatim>\<open>code: number\<close>, and
  \<^verbatim>\<open>extractResult\<close> provides for a response that leaves it out (\<^verbatim>\<open>code || 500\<close>), so the
  field is optional here.
\<close>

record GeminiErrorInfo =
  message :: string
  code :: "int option"

text \<open>The message of an error that was thrown.\<close>

fun message :: "js_error \<Rightarrow> string" where
  "message (GeminiApiError st m) = m"
| "message (GeminiApiErrorOf st m) = m"
| "message (TypeError m) = m"
| "message (SyntaxError m) = m"
| "message (SystemError m) = m"

record GeminiResponse =
  candidates :: "GeminiCandidate list option"
  error :: "GeminiErrorInfo option"

record GenerateOptions =
  model :: ModelChoice
  parts :: "GeminiPart list"
  responseModalities :: "string list"
  aspectRatio :: "string option"
  imageSize :: "string option"

record ExtractedResult =
  "text" :: "string option"
  imagePath :: "string option"

section \<open>The world outside the process\<close>

record request =
  url :: string
  http_method :: string
  headers :: "(string \<times> string) list"
  body :: string

text \<open>
  An HTTP response as \<^verbatim>\<open>generateContent\<close> reads it. \<open>json_body\<close> is what
  \<^verbatim>\<open>response.json()\<close> settles to: the parsed body, or \<open>Inl\<close> with the message of the
  \<^verbatim>\<open>SyntaxError\<close> it rejects with when the body does not parse. The failure path discards
  that error, the success path lets it escape.
\<close>

record http_response =
  status :: nat
  statusText :: string
  json_body :: "string + json"

datatype fetch_outcome =
    Rejected string
  | Response http_response

text \<open>
  The state the program shares with its environment: the files, which paths refuse a write
  (with the message of the error raised), the message of the error a failed read raises,
  the readings \<^verbatim>\<open>Date.now()\<close> will give (the next one first), the remote service, and the
  requests sent so far.
\<close>

record world =
  files :: "string \<Rightarrow> byte list option"
  write_error :: "string \<Rightarrow> string option"
  read_error :: "string \<Rightarrow> string"
  clock :: "nat \<Rightarrow> nat"
  server :: "request \<Rightarrow> fetch_outcome"
  sent :: "request list"

text \<open>
  The library functions the source calls, and the configuration it reads at startup:
  \<^verbatim>\<open>path.extname\<close>, \<^verbatim>\<open>path.join\<close>, \<^verbatim>\<open>Buffer.toString("base64")\<close>,
  \<^verbatim>\<open>Buffer.from(s, "base64")\<close> on a string \<^verbatim>\<open>s\<close>, \<^verbatim>\<open>JSON.stringify(v, null, indent)\<close> and
  the API key; and, for the values an unvalidated response can bring where the source
  expects a string, the conversion of a number to a string and \<^verbatim>\<open>Buffer.from(v, "base64")\<close>
  on a value \<^verbatim>\<open>v\<close> that is not a string (the bytes, or the message of the \<^verbatim>\<open>TypeError\<close>
  thrown). The properties proved below hold for any such functions, unless they name the
  sample platform. (An extension is empty or starts with a dot, so the lookup in the MIME
  table never meets a property an object inherits.)
\<close>

record platform =
  extname :: "string \<Rightarrow> string"
  join :: "string \<Rightarrow> string \<Rightarrow> string"
  toBase64 :: "byte list \<Rightarrow> string"
  fromBase64 :: "string \<Rightarrow> byte list"
  stringify :: "json \<Rightarrow> nat \<Rightarrow> string"
  numberToString :: "int \<Rightarrow> string"
  bufferFrom :: "json \<Rightarrow> string + byte list"
  API_KEY :: string

text \<open>A computation that may throw and may change the world.\<close>

type_synonym 'a io = "world \<Rightarrow> (js_error + 'a) \<times> world"

definition Date_now :: "world \<Rightarrow> nat \<times> world" where
  "Date_now w = (clock w 0, w\<lparr>clock := \<lambda>k. clock w (Suc k)\<rparr>)"

definition readFileSync :: "string \<Rightarrow> byte list io" where
  "readFileSync filePath w =
     (case files w filePath of
        None \<Rightarrow> (Inl (SystemError (read_error w filePath)), w)
      | Some buffer \<Rightarrow> (Inr buffer, w))"

definition writeFileSync :: "string \<Rightarrow> byte list \<Rightarrow> unit io" where
  "writeFileSync filePath buffer w =
     (case write_error w filePath of
        Some m \<Rightarrow> (Inl (SystemError m), w)
      | None \<Rightarrow> (Inr (), w\<lparr>files := (files w)(filePath \<mapsto> buffer)\<rparr>))"

text \<open>
  The decimal digits of a natural number, as a template literal prints a number below
  \<open>10\<^sup>2\<^sup>1\<close>: the readings of the clock and the HTTP statuses are such numbers.
\<close>

fun show_nat :: "nat \<Rightarrow> string" where
  "show_nat n =
     (if n < 10 then [''0123456789'' ! n]
      else show_nat (n div 10) @ [''0123456789'' ! (n mod 10)])"

declare show_nat.simps [simp del]

section \<open>Writing an image: \<^verbatim>\<open>saveBase64Image\<close>\<close>

definition image_filename :: "nat \<Rightarrow> string" where
  "image_filename timestamp = ''nano-banana-'' @ show_nat timestamp @ ''.png''"

definition saveBase64Image :: "platform \<Rightarrow> string \<Rightarrow> string \<Rightarrow> string io" where
  "saveBase64Image P base64 outputDir w =
     (let (timestamp, w1) = Date_now w;
          filename = image_filename timestamp;
          filePath = join P outputDir filename;
          buffer = fromBase64 P base64
      in case writeFileSync filePath buffer w1 of
           (Inl e, w2) \<Rightarrow> (Inl e, w2)
         | (Inr u, w2) \<Rightarrow> (Inr filePath, w2))"

section \<open>Response extraction: \<^verbatim>\<open>extractResult\<close>\<close>

text \<open>
  \<^verbatim>\<open>extractResult\<close> on an argument of its declared type, \<^verbatim>\<open>GeminiResponse\<close>. What the
  handlers pass to it is the unvalidated body of the response; the function on such a value
  is \<open>extractResult_json\<close> below, which is this one wherever the value is of the declared
  type.

  The loop over the parts of the first candidate. \<open>textParts\<close> and \<open>path\<close> are the
  accumulator \<^verbatim>\<open>textParts\<close> and the field \<^verbatim>\<open>result.imagePath\<close> of the source.
\<close>

fun extract_parts ::
  "platform \<Rightarrow> string \<Rightarrow> GeminiPart list \<Rightarrow> string list \<Rightarrow> string option
     \<Rightarrow> (string list \<times> string option) io" where
  "extract_parts P outputDir [] textParts path w = (Inr (textParts, path), w)"
| "extract_parts P outputDir (part # rest) textParts path w =
     (let textParts' =
            (case GeminiPart.text part of
               Some t \<Rightarrow> if t \<noteq> [] then textParts @ [t] else textParts
             | None \<Rightarrow> textParts)
      in case inlineData part of
           Some d \<Rightarrow>
             if data d \<noteq> [] then
               (case saveBase64Image P (data d) outputDir w of
                  (Inl e, w') \<Rightarrow> (Inl e, w')
                | (Inr p, w') \<Rightarrow> extract_parts P outputDir rest textParts' (Some p) w')
             else extract_parts P outputDir rest textParts' path w
         | None \<Rightarrow> extract_parts P outputDir rest textParts' path w)"

text \<open>\<^verbatim>\<open>Array.prototype.join\<close> with a separator.\<close>

fun join_with :: "string \<Rightarrow> string list \<Rightarrow> string" where
  "join_with sep [] = []"
| "join_with sep [x] = x"
| "join_with sep (x # y # ys) = x @ sep @ join_with sep (y # ys)"

definition extractResult :: "platform \<Rightarrow> GeminiResponse \<Rightarrow> string \<Rightarrow> ExtractedResult io" where
  "extractResult P response outputDir w =
     (case (case candidates response of None \<Rightarrow> [] | Some cs \<Rightarrow> cs) of
        [] \<Rightarrow>
          (case error response of
             Some e \<Rightarrow>
               (Inl (GeminiApiError
                       (case code e of None \<Rightarrow> 500 | Some c \<Rightarrow> if c = 0 then 500 else c)
                       (GeminiErrorInfo.message e)), w)
           | None \<Rightarrow> (Inr \<lparr>text = None, imagePath = None\<rparr>, w))
      | first # others \<Rightarrow>
          (case extract_parts P outputDir (GeminiContent.parts (GeminiCandidate.content first)) [] None w of
             (Inl e, w') \<Rightarrow> (Inl e, w')
           | (Inr (textParts, path), w') \<Rightarrow>
               (Inr \<lparr>text = (if textParts \<noteq> [] then Some (join_with [CHR 0x0A] textParts) else None),
                     imagePath = path\<rparr>, w')))"

section \<open>The endpoint client: \<^verbatim>\<open>generateContent\<close>\<close>

definition BASE_URL :: string where
  "BASE_URL = ''https://generativelanguage.googleapis.com/v1beta''"

text \<open>
  The request body as an object, before \<^verbatim>\<open>JSON.stringify\<close>. A part is written with the
  properties it has; \<^verbatim>\<open>imageConfig\<close> receives a property for each of the two options that is
  truthy.
\<close>

definition part_json :: "GeminiPart \<Rightarrow> json" where
  "part_json p =
     JObj ((case GeminiPart.text p of Some t \<Rightarrow> [(''text'', JStr t)] | None \<Rightarrow> []) @
           (case inlineData p of
              Some d \<Rightarrow> [(''inlineData'', JObj [(''mimeType'', JStr (mimeType d)), (''data'', JStr (data d))])]
            | None \<Rightarrow> []))"

definition imageConfig :: "GenerateOptions \<Rightarrow> json" where
  "imageConfig options =
     JObj ((case aspectRatio options of
              Some a \<Rightarrow> if a \<noteq> [] then [(''aspectRatio'', JStr a)] else []
            | None \<Rightarrow> []) @
           (case imageSize options of
              Some s \<Rightarrow> if s \<noteq> [] then [(''imageSize'', JStr s)] else []
            | None \<Rightarrow> []))"

definition generationConfig :: "GenerateOptions \<Rightarrow> (string \<times> json) list" where
  "generationConfig options =
     (''responseModalities'', JArr (map JStr (responseModalities options))) #
     (if ''IMAGE'' \<in> set (responseModalities options) \<and>
         (truthy (aspectRatio options) \<or> truthy (imageSize options))
      then [(''imageConfig'', imageConfig options)]
      else [])"

definition request_body :: "GenerateOptions \<Rightarrow> json" where
  "request_body options =
     JObj [(''contents'',
              JArr [JObj [(''role'', JStr ''user''),
                          (''parts'', JArr (map part_json (GenerateOptions.parts options)))]]),
           (''generationConfig'', JObj (generationConfig options))]"

definition build_request :: "platform \<Rightarrow> GenerateOptions \<Rightarrow> request" where
  "build_request P options =
     \<lparr>url = BASE_URL @ ''/models/'' @ resolveModel (model options) @ '':generateContent'',
      http_method = ''POST'',
      headers = [(''Content-Type'', ''application/json''), (''x-goog-api-key'', API_KEY P)],
      body = stringify P (request_body options) 0\<rparr>"

text \<open>\<^verbatim>\<open>fetch\<close>: the request goes out, the service answers or the call rejects.\<close>

definition fetch :: "request \<Rightarrow> http_response io" where
  "fetch req w =
     (case server w req of
        Rejected m \<Rightarrow> (Inl (TypeError m), w\<lparr>sent := sent w @ [req]\<rparr>)
      | Response r \<Rightarrow> (Inr r, w\<lparr>sent := sent w @ [req]\<rparr>))"

definition ok :: "http_response \<Rightarrow> bool" where
  "ok r = (200 \<le> status r \<and> status r \<le> 299)"

text \<open>
  The JavaScript the source runs on a parsed body: reading a property of a value that is
  not \<^verbatim>\<open>null\<close> (the last member of that name when an object holds it more than once,
  \<^verbatim>\<open>undefined\<close> on anything but an object: the names read with \<open>get_prop\<close> are no
  properties of arrays, strings, numbers or booleans), truthiness, and the conversion to a
  string that a template literal, the constructor of \<^verbatim>\<open>Error\<close> and \<^verbatim>\<open>Array.prototype.join\<close>
  make. A number is printed by the platform. An array converts to its elements joined by
  commas, \<^verbatim>\<open>null\<close> among them giving the empty string. An object converts to
  \<^verbatim>\<open>[object Object]\<close> unless it has a member named \<^verbatim>\<open>toString\<close>: that member is not a
  function, and the conversion throws.
\<close>

fun get_prop :: "json \<Rightarrow> string \<Rightarrow> json option" where
  "get_prop (JObj members) k = map_of (rev members) k"
| "get_prop v k = None"

fun js_truthy :: "json option \<Rightarrow> bool" where
  "js_truthy None = False"
| "js_truthy (Some JNull) = False"
| "js_truthy (Some (JBool b)) = b"
| "js_truthy (Some (JNum n)) = (n \<noteq> 0)"
| "js_truthy (Some (JStr s)) = (s \<noteq> [])"
| "js_truthy (Some (JArr xs)) = True"
| "js_truthy (Some (JObj members)) = True"

fun sequence :: "'a option list \<Rightarrow> 'a list option" where
  "sequence [] = Some []"
| "sequence (x # xs) =
     (case x of None \<Rightarrow> None
      | Some y \<Rightarrow> (case sequence xs of None \<Rightarrow> None | Some ys \<Rightarrow> Some (y # ys)))"

fun js_to_string :: "platform \<Rightarrow> json \<Rightarrow> string option" where
  "js_to_string P JNull = Some ''null''"
| "js_to_string P (JBool b) = Some (if b then ''true'' else ''false'')"
| "js_to_string P (JNum n) = Some (numberToString P n)"
| "js_to_string P (JStr s) = Some s"
| "js_to_string P (JArr xs) =
     (case sequence (map (\<lambda>x. if x = JNull then Some [] else js_to_string P x) xs) of
        None \<Rightarrow> None
      | Some strs \<Rightarrow> Some (join_with '','' strs))"
| "js_to_string P (JObj members) =
     (if ''toString'' \<in> fst ` set members then None else Some ''[object Object]'')"

definition RATE_LIMIT_MESSAGE :: string where
  "RATE_LIMIT_MESSAGE =
     ''Rate limit exceeded. Gemini image generation is limited to ~2-5 requests per minute. Try again in a moment.''"

text \<open>
  \<^verbatim>\<open>error.message || error.error?.message || response.statusText\<close>: the first truthy
  operand, the last one when none is. Reading \<^verbatim>\<open>message\<close> off a body that parsed to
  \<^verbatim>\<open>null\<close> throws.
\<close>

definition derive_msg :: "json \<Rightarrow> string \<Rightarrow> js_error + json" where
  "derive_msg err status_text =
     (if err = JNull then Inl (TypeError ''Cannot read properties of null (reading 'message')'')
      else if js_truthy (get_prop err ''message'') then
        (case get_prop err ''message'' of Some m \<Rightarrow> Inr m | None \<Rightarrow> Inr (JStr status_text))
      else
        (let inner =
               (case get_prop err ''error'' of
                  None \<Rightarrow> None
                | Some e \<Rightarrow> if e = JNull then None else get_prop e ''message'')
         in if js_truthy inner then
              (case inner of Some m \<Rightarrow> Inr m | None \<Rightarrow> Inr (JStr status_text))
            else Inr (JStr status_text)))"

text \<open>
  The value returned on success is the parsed body, whatever it is: the cast to
  \<^verbatim>\<open>GeminiResponse\<close> checks nothing.
\<close>

definition generateContent :: "platform \<Rightarrow> GenerateOptions \<Rightarrow> json io" where
  "generateContent P options w =
     (case fetch (build_request P options) w of
        (Inl e, w') \<Rightarrow> (Inl e, w')
      | (Inr response, w') \<Rightarrow>
          if \<not> ok response then
            (case derive_msg (case json_body response of Inl m \<Rightarrow> JObj [] | Inr j \<Rightarrow> j)
                    (statusText response) of
               Inl e \<Rightarrow> (Inl e, w')
             | Inr msg \<Rightarrow>
                 if status response = 429 then
                   (Inl (GeminiApiError 429 RATE_LIMIT_MESSAGE), w')
                 else
                   (case js_to_string P msg of
                      None \<Rightarrow> (Inl (TypeError ''Cannot convert object to primitive value''), w')
                    | Some m \<Rightarrow>
                        (Inl (GeminiApiError (int (status response))
                                (''Gemini API error ('' @ show_nat (status response) @ ''): '' @ m)),
                         w')))
          else
            (case json_body response of
               Inl m \<Rightarrow> (Inl (SyntaxError m), w')
             | Inr j \<Rightarrow> (Inr j, w')))"

section \<open>The response as the program meets it\<close>

text \<open>
  \<^verbatim>\<open>generateContent\<close> returns the parsed body of a success response under a cast, without
  validation: what \<^verbatim>\<open>extractResult\<close> and the handlers receive is any JSON value, and every
  read they make follows the rules of JavaScript. A property read throws on \<^verbatim>\<open>undefined\<close>
  and on \<^verbatim>\<open>null\<close>, and gives \<^verbatim>\<open>undefined\<close> on a value that has no such property.
\<close>

definition read_prop :: "json option \<Rightarrow> string \<Rightarrow> js_error + json option" where
  "read_prop v k =
     (case v of
        None \<Rightarrow>
          Inl (TypeError (''Cannot read properties of undefined (reading '' @ [CHR 0x27] @ k @ [CHR 0x27] @ '')''))
      | Some x \<Rightarrow>
          if x = JNull then
            Inl (TypeError (''Cannot read properties of null (reading '' @ [CHR 0x27] @ k @ [CHR 0x27] @ '')''))
          else Inr (get_prop x k))"

text \<open>
  \<^verbatim>\<open>!response.candidates || response.candidates.length === 0\<close>. An array has its number of
  elements for length, a truthy string a length that is not zero, an object the member of
  that name, a number or a boolean none.
\<close>

definition no_candidates :: "json option \<Rightarrow> bool" where
  "no_candidates c =
     (\<not> js_truthy c \<or>
      (case c of
         Some (JArr xs) \<Rightarrow> xs = []
       | Some (JObj members) \<Rightarrow> get_prop (JObj members) ''length'' = Some (JNum 0)
       | _ \<Rightarrow> False))"

text \<open>
  \<^verbatim>\<open>candidates[0]\<close>: the first element of an array, the first character of a string (a
  string of its own, of which only that it is a string matters below), the member named
  \<^verbatim>\<open>0\<close> of an object.
\<close>

definition index0 :: "json option \<Rightarrow> js_error + json option" where
  "index0 v =
     (case v of
        None \<Rightarrow> Inl (TypeError ''Cannot read properties of undefined (reading '0')'')
      | Some JNull \<Rightarrow> Inl (TypeError ''Cannot read properties of null (reading '0')'')
      | Some (JArr xs) \<Rightarrow> Inr (case xs of [] \<Rightarrow> None | x # rest \<Rightarrow> Some x)
      | Some (JStr s) \<Rightarrow> Inr (case s of [] \<Rightarrow> None | c # rest \<Rightarrow> Some (JStr [c]))
      | Some (JObj members) \<Rightarrow> Inr (get_prop (JObj members) ''0'')
      | Some x \<Rightarrow> Inr None)"

text \<open>\<^verbatim>\<open>candidates[0].content.parts\<close>, from the value of \<^verbatim>\<open>candidates\<close>.\<close>

definition first_parts_json :: "json option \<Rightarrow> js_error + json option" where
  "first_parts_json c =
     (case index0 c of
        Inl e \<Rightarrow> Inl e
      | Inr first \<Rightarrow>
          (case read_prop first ''content'' of
             Inl e \<Rightarrow> Inl e
           | Inr cont \<Rightarrow> read_prop cont ''parts''))"

text \<open>
  \<^verbatim>\<open>for (const part of parts)\<close>: an array gives its elements, a string its characters (each
  a string, on which the loop body finds nothing), anything else is not iterable.
\<close>

definition iterate :: "json option \<Rightarrow> js_error + json list" where
  "iterate v =
     (case v of
        Some (JArr xs) \<Rightarrow> Inr xs
      | Some (JStr s) \<Rightarrow> Inr (map (\<lambda>c. JStr [c]) s)
      | _ \<Rightarrow> Inl (TypeError ''parts is not iterable''))"

text \<open>\<^verbatim>\<open>part.inlineData?.data\<close>, for a part that is not \<^verbatim>\<open>null\<close>.\<close>

definition inline_data :: "json \<Rightarrow> json option" where
  "inline_data part =
     (case get_prop part ''inlineData'' of
        None \<Rightarrow> None
      | Some i \<Rightarrow> if i = JNull then None else get_prop i ''data'')"

text \<open>
  \<^verbatim>\<open>Buffer.from(base64, "base64")\<close> on the payload: a string is decoded, any other value is
  the library's to convert or to refuse with a \<^verbatim>\<open>TypeError\<close>.
\<close>

definition payload_bytes :: "platform \<Rightarrow> json \<Rightarrow> string + byte list" where
  "payload_bytes P v = (case v of JStr s \<Rightarrow> Inr (fromBase64 P s) | _ \<Rightarrow> bufferFrom P v)"

definition saveBase64Image_json :: "platform \<Rightarrow> json \<Rightarrow> string \<Rightarrow> string io" where
  "saveBase64Image_json P base64 outputDir w =
     (let (timestamp, w1) = Date_now w;
          filename = image_filename timestamp;
          filePath = join P outputDir filename
      in case payload_bytes P base64 of
           Inl m \<Rightarrow> (Inl (TypeError m), w1)
         | Inr buffer \<Rightarrow>
             (case writeFileSync filePath buffer w1 of
                (Inl e, w2) \<Rightarrow> (Inl e, w2)
              | (Inr u, w2) \<Rightarrow> (Inr filePath, w2)))"

fun extract_parts_json ::
  "platform \<Rightarrow> string \<Rightarrow> json list \<Rightarrow> json list \<Rightarrow> string option
     \<Rightarrow> (json list \<times> string option) io" where
  "extract_parts_json P outputDir [] textParts path w = (Inr (textParts, path), w)"
| "extract_parts_json P outputDir (part # rest) textParts path w =
     (case read_prop (Some part) ''text'' of
        Inl e \<Rightarrow> (Inl e, w)
      | Inr t \<Rightarrow>
          (let textParts' =
                 (case t of
                    Some v \<Rightarrow> if js_truthy (Some v) then textParts @ [v] else textParts
                  | None \<Rightarrow> textParts)
           in case inline_data part of
                Some d \<Rightarrow>
                  if js_truthy (Some d) then
                    (case saveBase64Image_json P d outputDir w of
                       (Inl e, w') \<Rightarrow> (Inl e, w')
                     | (Inr p, w') \<Rightarrow> extract_parts_json P outputDir rest textParts' (Some p) w')
                  else extract_parts_json P outputDir rest textParts' path w
              | None \<Rightarrow> extract_parts_json P outputDir rest textParts' path w))"

text \<open>
  \<^verbatim>\<open>new GeminiApiError(response.error.code || 500, response.error.message)\<close>, for a truthy
  descriptor. The message goes through the constructor of \<^verbatim>\<open>Error\<close>, which converts it to
  a string unless it is \<^verbatim>\<open>undefined\<close>.
\<close>

definition api_error :: "platform \<Rightarrow> json \<Rightarrow> js_error" where
  "api_error P err =
     (case (case get_prop err ''message'' of None \<Rightarrow> Some [] | Some v \<Rightarrow> js_to_string P v) of
        None \<Rightarrow> TypeError ''Cannot convert object to primitive value''
      | Some m \<Rightarrow>
          (case get_prop err ''code'' of
             None \<Rightarrow> GeminiApiError 500 m
           | Some (JNum n) \<Rightarrow> GeminiApiError (if n = 0 then 500 else n) m
           | Some c \<Rightarrow> if js_truthy (Some c) then GeminiApiErrorOf c m else GeminiApiError 500 m))"

text \<open>
  \<^verbatim>\<open>extractResult\<close> as it runs on the value it is given. On a value that conforms to the
  interface it is \<open>extractResult\<close> above (lemma \<open>extractResult_json_conforming\<close>).
\<close>

definition extractResult_json :: "platform \<Rightarrow> json \<Rightarrow> string \<Rightarrow> ExtractedResult io" where
  "extractResult_json P response outputDir w =
     (case read_prop (Some response) ''candidates'' of
        Inl e \<Rightarrow> (Inl e, w)
      | Inr c \<Rightarrow>
          if no_candidates c then
            (case get_prop response ''error'' of
               Some err \<Rightarrow>
                 if js_truthy (Some err) then (Inl (api_error P err), w)
                 else (Inr \<lparr>text = None, imagePath = None\<rparr>, w)
             | None \<Rightarrow> (Inr \<lparr>text = None, imagePath = None\<rparr>, w))
          else
            (case first_parts_json c of
               Inl e \<Rightarrow> (Inl e, w)
             | Inr parts0 \<Rightarrow>
                 (case iterate parts0 of
                    Inl e \<Rightarrow> (Inl e, w)
                  | Inr ps \<Rightarrow>
                      (case extract_parts_json P outputDir ps [] None w of
                         (Inl e, w') \<Rightarrow> (Inl e, w')
                       | (Inr (textParts, path), w') \<Rightarrow>
                           if textParts \<noteq> [] then
                             (case sequence (map (js_to_string P) textParts) of
                                None \<Rightarrow>
                                  (Inl (TypeError ''Cannot convert object to primitive value''), w')
                              | Some strs \<Rightarrow>
                                  (Inr \<lparr>text = Some (join_with [CHR 0x0A] strs), imagePath = path\<rparr>, w'))
                           else (Inr \<lparr>text = None, imagePath = path\<rparr>, w')))))"

text \<open>
  The value read as a \<^verbatim>\<open>GeminiResponse\<close>, when it conforms to the interface: every declared
  property has its declared type, an optional one may be missing, others are ignored.
\<close>

definition as_string :: "json \<Rightarrow> string option" where
  "as_string v = (case v of JStr s \<Rightarrow> Some s | _ \<Rightarrow> None)"

definition as_number :: "json \<Rightarrow> int option" where
  "as_number v = (case v of JNum n \<Rightarrow> Some n | _ \<Rightarrow> None)"

definition optional :: "(json \<Rightarrow> 'a option) \<Rightarrow> json option \<Rightarrow> 'a option option" where
  "optional f v = (case v of None \<Rightarrow> Some None | Some x \<Rightarrow> map_option Some (f x))"

definition as_InlineData :: "json \<Rightarrow> InlineData option" where
  "as_InlineData v =
     (case v of
        JObj members \<Rightarrow>
          (case (get_prop v ''mimeType'', get_prop v ''data'') of
             (Some (JStr m), Some (JStr d)) \<Rightarrow> Some \<lparr>mimeType = m, data = d\<rparr>
           | _ \<Rightarrow> None)
      | _ \<Rightarrow> None)"

definition as_GeminiPart :: "json \<Rightarrow> GeminiPart option" where
  "as_GeminiPart v =
     (case v of
        JObj members \<Rightarrow>
          (case (optional as_string (get_prop v ''text''),
                 optional as_InlineData (get_prop v ''inlineData'')) of
             (Some t, Some i) \<Rightarrow> Some \<lparr>GeminiPart.text = t, inlineData = i\<rparr>
           | _ \<Rightarrow> None)
      | _ \<Rightarrow> None)"

definition as_GeminiCandidate :: "json \<Rightarrow> GeminiCandidate option" where
  "as_GeminiCandidate v =
     (case v of
        JObj members \<Rightarrow>
          (case get_prop v ''content'' of
             Some (JObj cm) \<Rightarrow>
               (case (get_prop (JObj cm) ''parts'', get_prop (JObj cm) ''role'') of
                  (Some (JArr ps), Some (JStr r)) \<Rightarrow>
                    (case sequence (map as_GeminiPart ps) of
                       Some tps \<Rightarrow>
                         Some \<lparr>GeminiCandidate.content = \<lparr>GeminiContent.parts = tps, role = r\<rparr>\<rparr>
                     | None \<Rightarrow> None)
                | _ \<Rightarrow> None)
           | _ \<Rightarrow> None)
      | _ \<Rightarrow> None)"

definition as_candidates :: "json \<Rightarrow> GeminiCandidate list option" where
  "as_candidates v = (case v of JArr cs \<Rightarrow> sequence (map as_GeminiCandidate cs) | _ \<Rightarrow> None)"

definition as_GeminiErrorInfo :: "json \<Rightarrow> GeminiErrorInfo option" where
  "as_GeminiErrorInfo v =
     (case v of
        JObj members \<Rightarrow>
          (case (get_prop v ''message'', optional as_number (get_prop v ''code'')) of
             (Some (JStr m), Some c) \<Rightarrow> Some \<lparr>GeminiErrorInfo.message = m, code = c\<rparr>
           | _ \<Rightarrow> None)
      | _ \<Rightarrow> None)"

definition as_GeminiResponse :: "json \<Rightarrow> GeminiResponse option" where
  "as_GeminiResponse v =
     (case v of
        JObj members \<Rightarrow>
          (case (optional as_candidates (get_prop v ''candidates''),
                 optional as_GeminiErrorInfo (get_prop v ''error'')) of
             (Some cs, Some e) \<Rightarrow> Some \<lparr>candidates = cs, error = e\<rparr>
           | _ \<Rightarrow> None)
      | _ \<Rightarrow> None)"

section \<open>Reading an image: \<^verbatim>\<open>readImageAsBase64\<close>\<close>

text \<open>
  \<^verbatim>\<open>toLowerCase\<close> on the letters A to Z. No other character becomes one of the letters of
  the table's keys when lowered, so the lookup below is not affected by the rest.
\<close>

definition lower_char :: "char \<Rightarrow> char" where
  "lower_char c =
     (case map_of (zip ''ABCDEFGHIJKLMNOPQRSTUVWXYZ'' ''abcdefghijklmnopqrstuvwxyz'') c of
        Some l \<Rightarrow> l
      | None \<Rightarrow> c)"

definition toLowerCase :: "string \<Rightarrow> string" where
  "toLowerCase s = map lower_char s"

definition mimeMap :: "(string \<times> string) list" where
  "mimeMap =
     [(''.png'', ''image/png''),
      (''.jpg'', ''image/jpeg''),
      (''.jpeg'', ''image/jpeg''),
      (''.gif'', ''image/gif''),
      (''.webp'', ''image/webp''),
      (''.bmp'', ''image/bmp'')]"

text \<open>The function returns an object of the shape of \<^verbatim>\<open>inlineData\<close>; the record is shared.\<close>

definition readImageAsBase64 :: "platform \<Rightarrow> string \<Rightarrow> InlineData io" where
  "readImageAsBase64 P filePath w =
     (case readFileSync filePath w of
        (Inl e, w') \<Rightarrow> (Inl e, w')
      | (Inr buffer, w') \<Rightarrow>
          (let ext = toLowerCase (extname P filePath);
               mime = (if truthy (map_of mimeMap ext)
                       then (case map_of mimeMap ext of Some m \<Rightarrow> m | None \<Rightarrow> ''image/png'')
                       else ''image/png'')
           in (Inr \<lparr>mimeType = mime, data = toBase64 P buffer\<rparr>, w')))"

section \<open>Tool results\<close>

text \<open>
  The envelope returned to the protocol. \<open>isError\<close> is \<open>False\<close> where the source leaves the
  property out. The data of an image item is the value the handler read off the response,
  \<open>None\<close> standing for \<^verbatim>\<open>undefined\<close>.
\<close>

datatype content_item =
    TextItem string
  | ImageItem "json option" string

record envelope =
  isError :: bool
  content :: "content_item list"

definition toolResult :: "platform \<Rightarrow> json \<Rightarrow> envelope" where
  "toolResult P d = \<lparr>isError = False, content = [TextItem (stringify P d 2)]\<rparr>"

definition toolResultWithImage :: "platform \<Rightarrow> json \<Rightarrow> json option \<Rightarrow> envelope" where
  "toolResultWithImage P d base64 =
     \<lparr>isError = False, content = [ImageItem base64 ''image/png'', TextItem (stringify P d 2)]\<rparr>"

definition toolError :: "string \<Rightarrow> envelope" where
  "toolError m = \<lparr>isError = True, content = [TextItem m]\<rparr>"

section \<open>The tool handlers\<close>

text \<open>
  The arguments a handler receives, after the schema has been applied (defaults filled in).
\<close>

record generate_args =
  prompt :: string
  model :: ModelChoice
  aspect_ratio :: string
  image_size :: string
  output_dir :: string

record edit_args =
  image_path :: string
  instruction :: string
  model :: ModelChoice
  aspect_ratio :: "string option"
  image_size :: string
  output_dir :: string

record compose_args =
  image_paths :: "string list"
  instruction :: string
  model :: ModelChoice
  aspect_ratio :: string
  image_size :: string
  output_dir :: string

record describe_args =
  image_path :: string
  prompt :: string
  model :: ModelChoice

text \<open>
  \<^verbatim>\<open>candidates[0].content.parts.find((p) => p.inlineData?.data)\<close> and then
  \<^verbatim>\<open>imagePart!.inlineData!.data\<close>. Only an array has \<^verbatim>\<open>find\<close>; the callback throws on a
  part that is \<^verbatim>\<open>null\<close>.
\<close>

fun find_image :: "json list \<Rightarrow> js_error + json option" where
  "find_image [] = Inr None"
| "find_image (p # ps) =
     (if p = JNull then Inl (TypeError ''Cannot read properties of null (reading 'inlineData')'')
      else if js_truthy (inline_data p) then Inr (Some p)
      else find_image ps)"

definition first_image_data :: "json \<Rightarrow> js_error + json option" where
  "first_image_data response =
     (case read_prop (Some response) ''candidates'' of
        Inl e \<Rightarrow> Inl e
      | Inr c \<Rightarrow>
          (case first_parts_json c of
             Inl e \<Rightarrow> Inl e
           | Inr parts0 \<Rightarrow>
               (case parts0 of
                  None \<Rightarrow> Inl (TypeError ''Cannot read properties of undefined (reading 'find')'')
                | Some JNull \<Rightarrow> Inl (TypeError ''Cannot read properties of null (reading 'find')'')
                | Some (JArr ps) \<Rightarrow>
                    (case find_image ps of
                       Inl e \<Rightarrow> Inl e
                     | Inr imagePart \<Rightarrow>
                         (case read_prop imagePart ''inlineData'' of
                            Inl e \<Rightarrow> Inl e
                          | Inr i \<Rightarrow> read_prop i ''data''))
                | Some x \<Rightarrow> Inl (TypeError ''candidates[0].content.parts.find is not a function''))))"

definition json_of_text :: "string option \<Rightarrow> json" where
  "json_of_text t = (case t of None \<Rightarrow> JNull | Some s \<Rightarrow> JStr s)"

subsection \<open>\<^verbatim>\<open>generate_image\<close>\<close>

definition generate_options :: "generate_args \<Rightarrow> GenerateOptions" where
  "generate_options a =
     \<lparr>GenerateOptions.model = generate_args.model a,
      parts = [\<lparr>GeminiPart.text = Some (generate_args.prompt a), inlineData = None\<rparr>],
      responseModalities = [''TEXT'', ''IMAGE''],
      aspectRatio = Some (generate_args.aspect_ratio a),
      imageSize = Some (generate_args.image_size a)\<rparr>"

text \<open>The body of the \<^verbatim>\<open>try\<close> block, then the handler with its \<^verbatim>\<open>catch\<close>.\<close>

definition generate_image_try :: "platform \<Rightarrow> generate_args \<Rightarrow> envelope io" where
  "generate_image_try P a w =
     (case generateContent P (generate_options a) w of
        (Inl e, w1) \<Rightarrow> (Inl e, w1)
      | (Inr response, w1) \<Rightarrow>
          (case extractResult_json P response (generate_args.output_dir a) w1 of
             (Inl e, w2) \<Rightarrow> (Inl e, w2)
           | (Inr result, w2) \<Rightarrow>
               if \<not> truthy (imagePath result) then
                 (Inr (toolError
                    ''No image was generated. The model may have refused the prompt due to safety filters. Try rephrasing.''),
                  w2)
               else
                 (case first_image_data response of
                    Inl e \<Rightarrow> (Inl e, w2)
                  | Inr base64 \<Rightarrow>
                      (Inr (toolResultWithImage P
                              (JObj [(''saved_to'', json_of_text (imagePath result)),
                                     (''model'', JStr (choice_name (generate_args.model a))),
                                     (''aspect_ratio'', JStr (generate_args.aspect_ratio a)),
                                     (''image_size'', JStr (generate_args.image_size a)),
                                     (''description'', json_of_text (ExtractedResult.text result))])
                              base64),
                       w2))))"

definition generate_image :: "platform \<Rightarrow> generate_args \<Rightarrow> envelope io" where
  "generate_image P a w =
     (case generate_image_try P a w of
        (Inl e, w') \<Rightarrow> (Inr (toolError (''Failed to generate image: '' @ message e)), w')
      | (Inr r, w') \<Rightarrow> (Inr r, w'))"

subsection \<open>\<^verbatim>\<open>edit_image\<close>\<close>

definition edit_options :: "edit_args \<Rightarrow> InlineData \<Rightarrow> GenerateOptions" where
  "edit_options a img =
     \<lparr>GenerateOptions.model = edit_args.model a,
      parts = [\<lparr>GeminiPart.text = None,
                inlineData = Some \<lparr>mimeType = mimeType img, data = data img\<rparr>\<rparr>,
               \<lparr>GeminiPart.text = Some (edit_args.instruction a), inlineData = None\<rparr>],
      responseModalities = [''TEXT'', ''IMAGE''],
      aspectRatio = edit_args.aspect_ratio a,
      imageSize = Some (edit_args.image_size a)\<rparr>"

definition edit_image_try :: "platform \<Rightarrow> edit_args \<Rightarrow> envelope io" where
  "edit_image_try P a w =
     (case readImageAsBase64 P (edit_args.image_path a) w of
        (Inl e, w0) \<Rightarrow> (Inl e, w0)
      | (Inr img, w0) \<Rightarrow>
     (case generateContent P (edit_options a img) w0 of
        (Inl e, w1) \<Rightarrow> (Inl e, w1)
      | (Inr response, w1) \<Rightarrow>
          (case extractResult_json P response (edit_args.output_dir a) w1 of
             (Inl e, w2) \<Rightarrow> (Inl e, w2)
           | (Inr result, w2) \<Rightarrow>
               if \<not> truthy (imagePath result) then
                 (Inr (toolError
                    ''No image was generated. The model may have refused the edit. Try a different instruction.''),
                  w2)
               else
                 (case first_image_data response of
                    Inl e \<Rightarrow> (Inl e, w2)
                  | Inr base64 \<Rightarrow>
                      (Inr (toolResultWithImage P
                              (JObj [(''saved_to'', json_of_text (imagePath result)),
                                     (''source'', JStr (edit_args.image_path a)),
                                     (''instruction'', JStr (edit_args.instruction a)),
                                     (''model'', JStr (choice_name (edit_args.model a))),
                                     (''description'', json_of_text (ExtractedResult.text result))])
                              base64),
                       w2)))))"

definition edit_image :: "platform \<Rightarrow> edit_args \<Rightarrow> envelope io" where
  "edit_image P a w =
     (case edit_image_try P a w of
        (Inl e, w') \<Rightarrow> (Inr (toolError (''Failed to edit image: '' @ message e)), w')
      | (Inr r, w') \<Rightarrow> (Inr r, w'))"

subsection \<open>\<^verbatim>\<open>compose_images\<close>\<close>

text \<open>\<^verbatim>\<open>image_paths.map(...)\<close>: the images are read in order, the first failure is thrown.\<close>

fun read_images :: "platform \<Rightarrow> string list \<Rightarrow> GeminiPart list io" where
  "read_images P [] w = (Inr [], w)"
| "read_images P (path # rest) w =
     (case readImageAsBase64 P path w of
        (Inl e, w1) \<Rightarrow> (Inl e, w1)
      | (Inr img, w1) \<Rightarrow>
          (case read_images P rest w1 of
             (Inl e, w2) \<Rightarrow> (Inl e, w2)
           | (Inr ps, w2) \<Rightarrow>
               (Inr (\<lparr>GeminiPart.text = None,
                       inlineData = Some \<lparr>mimeType = mimeType img, data = data img\<rparr>\<rparr> # ps),
                w2)))"

definition compose_options :: "compose_args \<Rightarrow> GeminiPart list \<Rightarrow> GenerateOptions" where
  "compose_options a ps =
     \<lparr>GenerateOptions.model = compose_args.model a,
      parts = ps @ [\<lparr>GeminiPart.text = Some (compose_args.instruction a), inlineData = None\<rparr>],
      responseModalities = [''TEXT'', ''IMAGE''],
      aspectRatio = Some (compose_args.aspect_ratio a),
      imageSize = Some (compose_args.image_size a)\<rparr>"

definition compose_images_try :: "platform \<Rightarrow> compose_args \<Rightarrow> envelope io" where
  "compose_images_try P a w =
     (case read_images P (image_paths a) w of
        (Inl e, w0) \<Rightarrow> (Inl e, w0)
      | (Inr ps, w0) \<Rightarrow>
     (case generateContent P (compose_options a ps) w0 of
        (Inl e, w1) \<Rightarrow> (Inl e, w1)
      | (Inr response, w1) \<Rightarrow>
          (case extractResult_json P response (compose_args.output_dir a) w1 of
             (Inl e, w2) \<Rightarrow> (Inl e, w2)
           | (Inr result, w2) \<Rightarrow>
               if \<not> truthy (imagePath result) then
                 (Inr (toolError
                    ''No image was generated from composition. Try a different instruction.''),
                  w2)
               else
                 (case first_image_data response of
                    Inl e \<Rightarrow> (Inl e, w2)
                  | Inr base64 \<Rightarrow>
                      (Inr (toolResultWithImage P
                              (JObj [(''saved_to'', json_of_text (imagePath result)),
                                     (''sources'', JArr (map JStr (image_paths a))),
                                     (''instruction'', JStr (compose_args.instruction a)),
                                     (''model'', JStr (choice_name (compose_args.model a))),
                                     (''description'', json_of_text (ExtractedResult.text result))])
                              base64),
                       w2)))))"

definition compose_images :: "platform \<Rightarrow> compose_args \<Rightarrow> envelope io" where
  "compose_images P a w =
     (case compose_images_try P a w of
        (Inl e, w') \<Rightarrow> (Inr (toolError (''Failed to compose images: '' @ message e)), w')
      | (Inr r, w') \<Rightarrow> (Inr r, w'))"

subsection \<open>\<^verbatim>\<open>describe_image\<close>\<close>

definition describe_options :: "describe_args \<Rightarrow> InlineData \<Rightarrow> GenerateOptions" where
  "describe_options a img =
     \<lparr>GenerateOptions.model = describe_args.model a,
      parts = [\<lparr>GeminiPart.text = None,
                inlineData = Some \<lparr>mimeType = mimeType img, data = data img\<rparr>\<rparr>,
               \<lparr>GeminiPart.text = Some (describe_args.prompt a), inlineData = None\<rparr>],
      responseModalities = [''TEXT''],
      aspectRatio = None,
      imageSize = None\<rparr>"

text \<open>
  \<^verbatim>\<open>parts.filter((p) => p.text).map((p) => p.text!)\<close>: the truthy text values, in order. The
  callback throws on a part that is \<^verbatim>\<open>null\<close>; only an array has \<^verbatim>\<open>filter\<close>.
\<close>

fun filter_text :: "json list \<Rightarrow> js_error + json list" where
  "filter_text [] = Inr []"
| "filter_text (p # ps) =
     (if p = JNull then Inl (TypeError ''Cannot read properties of null (reading 'text')'')
      else (case filter_text ps of
              Inl e \<Rightarrow> Inl e
            | Inr vs \<Rightarrow> if js_truthy (get_prop p ''text'')
                        then (case get_prop p ''text'' of Some v \<Rightarrow> Inr (v # vs) | None \<Rightarrow> Inr vs)
                        else Inr vs))"

definition description_text :: "platform \<Rightarrow> json option \<Rightarrow> js_error + string" where
  "description_text P parts0 =
     (case parts0 of
        None \<Rightarrow> Inl (TypeError ''Cannot read properties of undefined (reading 'filter')'')
      | Some JNull \<Rightarrow> Inl (TypeError ''Cannot read properties of null (reading 'filter')'')
      | Some (JArr ps) \<Rightarrow>
          (case filter_text ps of
             Inl e \<Rightarrow> Inl e
           | Inr vs \<Rightarrow>
               (case sequence (map (js_to_string P) vs) of
                  None \<Rightarrow> Inl (TypeError ''Cannot convert object to primitive value'')
                | Some strs \<Rightarrow> Inr (join_with [CHR 0x0A] strs)))
      | Some x \<Rightarrow> Inl (TypeError ''response.candidates[0].content.parts.filter is not a function''))"

definition describe_image_try :: "platform \<Rightarrow> describe_args \<Rightarrow> envelope io" where
  "describe_image_try P a w =
     (case readImageAsBase64 P (describe_args.image_path a) w of
        (Inl e, w0) \<Rightarrow> (Inl e, w0)
      | (Inr img, w0) \<Rightarrow>
     (case generateContent P (describe_options a img) w0 of
        (Inl e, w1) \<Rightarrow> (Inl e, w1)
      | (Inr response, w1) \<Rightarrow>
          (case read_prop (Some response) ''candidates'' of
             Inl e \<Rightarrow> (Inl e, w1)
           | Inr c \<Rightarrow>
               if no_candidates c then (Inr (toolError ''No description was generated.''), w1)
               else
                 (case first_parts_json c of
                    Inl e \<Rightarrow> (Inl e, w1)
                  | Inr parts0 \<Rightarrow>
                      (case description_text P parts0 of
                         Inl e \<Rightarrow> (Inl e, w1)
                       | Inr textParts \<Rightarrow>
                           (Inr (toolResult P
                                   (JObj [(''image_path'', JStr (describe_args.image_path a)),
                                          (''description'', JStr textParts),
                                          (''model'', JStr (choice_name (describe_args.model a)))])),
                            w1))))))"

definition describe_image :: "platform \<Rightarrow> describe_args \<Rightarrow> envelope io" where
  "describe_image P a w =
     (case describe_image_try P a w of
        (Inl e, w') \<Rightarrow> (Inr (toolError (''Failed to describe image: '' @ message e)), w')
      | (Inr r, w') \<Rightarrow> (Inr r, w'))"

section \<open>Input validation for \<^verbatim>\<open>compose_images\<close>\<close>

text \<open>
  The enumerations and the input schema of \<^verbatim>\<open>compose_images\<close> are declared in the source;
  a schema is read here as the function from the raw arguments of a call to the validated
  arguments, \<open>None\<close> when the schema refuses them. A default replaces an argument that is
  left out; an argument of the wrong type is refused.
\<close>

definition ASPECT_RATIO_ENUM :: "string list" where
  "ASPECT_RATIO_ENUM =
     [''1:1'', ''16:9'', ''9:16'', ''4:3'', ''3:4'', ''3:2'', ''2:3'', ''21:9'', ''4:5'', ''5:4'']"

definition IMAGE_SIZE_ENUM :: "string list" where
  "IMAGE_SIZE_ENUM = [''1K'', ''2K'', ''4K'']"

fun z_string :: "json option \<Rightarrow> string option" where
  "z_string (Some (JStr s)) = Some s"
| "z_string v = None"

definition z_string_min :: "nat \<Rightarrow> json option \<Rightarrow> string option" where
  "z_string_min n v =
     (case z_string v of Some s \<Rightarrow> if n \<le> length s then Some s else None | None \<Rightarrow> None)"

definition z_string_default :: "string \<Rightarrow> json option \<Rightarrow> string option" where
  "z_string_default d v = (case v of None \<Rightarrow> Some d | Some x \<Rightarrow> z_string v)"

definition z_enum_default :: "string list \<Rightarrow> string \<Rightarrow> json option \<Rightarrow> string option" where
  "z_enum_default allowed d v =
     (case v of
        None \<Rightarrow> Some d
      | Some x \<Rightarrow> (case z_string v of
                     Some s \<Rightarrow> if s \<in> set allowed then Some s else None
                   | None \<Rightarrow> None))"

definition z_model :: "json option \<Rightarrow> ModelChoice option" where
  "z_model v =
     (case z_enum_default [''flash'', ''pro''] ''flash'' v of
        Some s \<Rightarrow> Some (if s = ''pro'' then pro else flash)
      | None \<Rightarrow> None)"

definition z_string_array :: "nat \<Rightarrow> nat \<Rightarrow> json option \<Rightarrow> string list option" where
  "z_string_array lo hi v =
     (case v of
        Some (JArr xs) \<Rightarrow>
          (case sequence (map (\<lambda>x. z_string (Some x)) xs) of
             Some strs \<Rightarrow> if lo \<le> length strs \<and> length strs \<le> hi then Some strs else None
           | None \<Rightarrow> None)
      | _ \<Rightarrow> None)"

definition compose_schema :: "json \<Rightarrow> compose_args option" where
  "compose_schema raw =
     (case raw of
        JObj members \<Rightarrow>
          (case (z_string_array 1 14 (get_prop raw ''image_paths''),
                 z_string_min 1 (get_prop raw ''instruction''),
                 z_model (get_prop raw ''model''),
                 z_enum_default ASPECT_RATIO_ENUM ''1:1'' (get_prop raw ''aspect_ratio''),
                 z_enum_default IMAGE_SIZE_ENUM ''1K'' (get_prop raw ''image_size''),
                 z_string_default ''.'' (get_prop raw ''output_dir'')) of
             (Some ps, Some i, Some m, Some ar, Some sz, Some dir) \<Rightarrow>
               Some \<lparr>image_paths = ps, instruction = i, model = m, aspect_ratio = ar,
                     image_size = sz, output_dir = dir\<rparr>
           | _ \<Rightarrow> None)
      | _ \<Rightarrow> None)"

datatype call_outcome =
    InvalidArguments
  | Returned envelope
  | Thrown js_error

text \<open>
  Modelled from the spec: the protocol dispatcher that receives a tool call is not part of
  the sources (it is the library the tools are registered with). As the spec has it, the
  arguments of a call are validated against the tool's input schema at the
  input-validation boundary, and a call the schema refuses is rejected there, before the
  handler runs.
\<close>

definition call_compose_images :: "platform \<Rightarrow> json \<Rightarrow> world \<Rightarrow> call_outcome \<times> world" where
  "call_compose_images P raw w =
     (case compose_schema raw of
        None \<Rightarrow> (InvalidArguments, w)
      | Some a \<Rightarrow>
          (case compose_images P a w of
             (Inl e, w') \<Rightarrow> (Thrown e, w')
           | (Inr r, w') \<Rightarrow> (Returned r, w')))"

section \<open>A platform and a world to run the model in\<close>

text \<open>
  An instance of the library interface, used to run the model on concrete inputs: the
  POSIX \<^verbatim>\<open>extname\<close> and \<^verbatim>\<open>join\<close> of \<^verbatim>\<open>node:path\<close>, base64 with the standard alphabet (the
  decoder skips what is not of the alphabet and stops at the padding), and
  \<^verbatim>\<open>JSON.stringify\<close> with an indent. A number is printed by its decimal digits, as
  JavaScript prints an integer of magnitude below \<open>10\<^sup>2\<^sup>1\<close>. Of the values that are not
  strings, \<^verbatim>\<open>Buffer.from\<close> refuses a number and a boolean, and takes an array of numbers,
  booleans and \<^verbatim>\<open>null\<close> element by element, each reduced to a byte. The sample platform
  refuses every other value, where Node converts some of them (an array with other
  elements, an object that looks like an array): no sample below gives it one, and no
  property below depends on it.
\<close>

definition show_int :: "int \<Rightarrow> string" where
  "show_int i = (if i < 0 then CHR ''-'' # show_nat (nat (- i)) else show_nat (nat i))"

fun split_on :: "char \<Rightarrow> string \<Rightarrow> string list" where
  "split_on c [] = [[]]"
| "split_on c (x # xs) =
     (if x = c then [] # split_on c xs
      else (case split_on c xs of [] \<Rightarrow> [[x]] | y # ys \<Rightarrow> (x # y) # ys))"

definition posix_extname :: "string \<Rightarrow> string" where
  "posix_extname path =
     (let trimmed = rev (dropWhile (\<lambda>c. c = CHR ''/'') (rev path));
          base = rev (takeWhile (\<lambda>c. c \<noteq> CHR ''/'') (rev trimmed));
          after = rev (takeWhile (\<lambda>c. c \<noteq> CHR ''.'') (rev base))
      in if CHR ''.'' \<notin> set base \<or> base = ''..'' \<or> length after + 1 = length base then []
         else CHR ''.'' # after)"

definition normalize_step :: "bool \<Rightarrow> string list \<Rightarrow> string \<Rightarrow> string list" where
  "normalize_step allowAboveRoot res seg =
     (if seg = [] \<or> seg = ''.'' then res
      else if seg = ''..'' then
        (if res \<noteq> [] \<and> last res \<noteq> ''..'' then butlast res
         else if allowAboveRoot then res @ [''..''] else res)
      else res @ [seg])"

definition posix_normalize :: "string \<Rightarrow> string" where
  "posix_normalize path =
     (if path = [] then ''.''
      else
        (let isAbsolute = (hd path = CHR ''/'');
             trailingSeparator = (last path = CHR ''/'');
             p = join_with ''/'' (foldl (normalize_step (\<not> isAbsolute)) [] (split_on CHR ''/'' path))
         in if p = [] then (if isAbsolute then ''/'' else if trailingSeparator then ''./'' else ''.'')
            else (if isAbsolute then ''/'' else []) @ p @ (if trailingSeparator then ''/'' else [])))"

definition posix_join :: "string \<Rightarrow> string \<Rightarrow> string" where
  "posix_join a b =
     (if a = [] \<and> b = [] then ''.''
      else if a = [] then posix_normalize b
      else if b = [] then posix_normalize a
      else posix_normalize (a @ ''/'' @ b))"

definition base64_alphabet :: string where
  "base64_alphabet = ''ABCDEFGHIJKLMNOPQRSTUVWXYZabcdefghijklmnopqrstuvwxyz0123456789+/''"

fun base64_encode :: "nat list \<Rightarrow> string" where
  "base64_encode (a # b # c # rest) =
     [base64_alphabet ! (a div 4), base64_alphabet ! ((a mod 4) * 16 + b div 16),
      base64_alphabet ! ((b mod 16) * 4 + c div 64), base64_alphabet ! (c mod 64)] @ base64_encode rest"
| "base64_encode [a, b] =
     [base64_alphabet ! (a div 4), base64_alphabet ! ((a mod 4) * 16 + b div 16),
      base64_alphabet ! ((b mod 16) * 4), CHR ''='']"
| "base64_encode [a] =
     [base64_alphabet ! (a div 4), base64_alphabet ! ((a mod 4) * 16), CHR ''='', CHR ''='']"
| "base64_encode [] = []"

fun index_from :: "nat \<Rightarrow> char \<Rightarrow> string \<Rightarrow> nat option" where
  "index_from n c [] = None"
| "index_from n c (x # xs) = (if c = x then Some n else index_from (n + 1) c xs)"

definition base64_value :: "char \<Rightarrow> nat option" where
  "base64_value c =
     (if c = CHR ''-'' then Some 62 else if c = CHR ''_'' then Some 63
      else index_from 0 c base64_alphabet)"

fun sextets_to_bytes :: "nat list \<Rightarrow> nat list" where
  "sextets_to_bytes (a # b # c # d # rest) =
     [a * 4 + b div 16, (b mod 16) * 16 + c div 4, (c mod 4) * 64 + d] @ sextets_to_bytes rest"
| "sextets_to_bytes [a, b, c] = [a * 4 + b div 16, (b mod 16) * 16 + c div 4]"
| "sextets_to_bytes [a, b] = [a * 4 + b div 16]"
| "sextets_to_bytes xs = []"

definition base64_decode :: "string \<Rightarrow> nat list" where
  "base64_decode s =
     sextets_to_bytes (List.map_filter base64_value (takeWhile (\<lambda>c. c \<noteq> CHR ''='') s))"

definition hex_digit :: "nat \<Rightarrow> char" where
  "hex_digit n = ''0123456789abcdef'' ! n"

definition json_escape :: "char \<Rightarrow> string" where
  "json_escape c =
     (if c = CHR 0x22 then [CHR 0x5C, CHR 0x22]
      else if c = CHR 0x5C then [CHR 0x5C, CHR 0x5C]
      else if c = CHR 0x08 then [CHR 0x5C, CHR ''b'']
      else if c = CHR 0x09 then [CHR 0x5C, CHR ''t'']
      else if c = CHR 0x0A then [CHR 0x5C, CHR ''n'']
      else if c = CHR 0x0C then [CHR 0x5C, CHR ''f'']
      else if c = CHR 0x0D then [CHR 0x5C, CHR ''r'']
      else if (of_char c :: nat) < 32 then
        [CHR 0x5C, CHR ''u'', CHR ''0'', CHR ''0'', hex_digit ((of_char c :: nat) div 16),
         hex_digit ((of_char c :: nat) mod 16)]
      else [c])"

definition json_quote :: "string \<Rightarrow> string" where
  "json_quote s = CHR 0x22 # concat (map json_escape s) @ [CHR 0x22]"

fun json_render :: "nat \<Rightarrow> nat \<Rightarrow> json \<Rightarrow> string" where
  "json_render ind cur JNull = ''null''"
| "json_render ind cur (JBool b) = (if b then ''true'' else ''false'')"
| "json_render ind cur (JNum n) = show_int n"
| "json_render ind cur (JStr s) = json_quote s"
| "json_render ind cur (JArr xs) =
     (if xs = [] then ''[]''
      else if ind = 0 then ''['' @ join_with '','' (map (json_render ind cur) xs) @ '']''
      else ''['' @ [CHR 0x0A] @
           join_with ('','' @ [CHR 0x0A])
             (map (\<lambda>x. replicate (cur + ind) CHR '' '' @ json_render ind (cur + ind) x) xs) @
           [CHR 0x0A] @ replicate cur CHR '' '' @ '']'')"
| "json_render ind cur (JObj members) =
     (if members = [] then ''{}''
      else if ind = 0 then
        ''{'' @ join_with '','' (map (\<lambda>(k, v). json_quote k @ '':'' @ json_render ind cur v) members) @ ''}''
      else ''{'' @ [CHR 0x0A] @
           join_with ('','' @ [CHR 0x0A])
             (map (\<lambda>(k, v). replicate (cur + ind) CHR '' '' @ json_quote k @ '': '' @
                              json_render ind (cur + ind) v) members) @
           [CHR 0x0A] @ replicate cur CHR '' '' @ ''}'')"

definition INVALID_ARG_TYPE :: string where
  "INVALID_ARG_TYPE =
     ''The first argument must be of type string or an instance of Buffer, ArrayBuffer, or Array or an Array-like Object.''"

fun simple_byte :: "json \<Rightarrow> byte option" where
  "simple_byte JNull = Some 0"
| "simple_byte (JBool b) = Some (if b then 1 else 0)"
| "simple_byte (JNum n) = Some (of_int n)"
| "simple_byte v = None"

definition buffer_from :: "json \<Rightarrow> string + byte list" where
  "buffer_from v =
     (case v of
        JNum n \<Rightarrow> Inl (INVALID_ARG_TYPE @ '' Received type number ('' @ show_int n @ '')'')
      | JBool b \<Rightarrow>
          Inl (INVALID_ARG_TYPE @ '' Received type boolean ('' @ (if b then ''true'' else ''false'') @ '')'')
      | JArr xs \<Rightarrow>
          (case sequence (map simple_byte xs) of
             Some bytes \<Rightarrow> Inr bytes
           | None \<Rightarrow> Inl INVALID_ARG_TYPE)
      | _ \<Rightarrow> Inl INVALID_ARG_TYPE)"

definition posix :: platform where
  "posix =
     \<lparr>extname = posix_extname,
      join = posix_join,
      toBase64 = (\<lambda>bytes. base64_encode (map unat bytes)),
      fromBase64 = (\<lambda>s. map of_nat (base64_decode s)),
      stringify = (\<lambda>v indent. json_render (min indent 10) 0 v),
      numberToString = show_int,
      bufferFrom = buffer_from,
      API_KEY = ''test-key''\<rparr>"

text \<open>
  A world with three images to read (one of them a file named \<^verbatim>\<open>.jpg\<close>), a directory that
  refuses writes, a clock that advances a millisecond per reading, and a service that gives
  the same answer to every request.
\<close>

definition sample_world :: "fetch_outcome \<Rightarrow> world" where
  "sample_world answer =
     \<lparr>files = map_of [(''/in/cat.jpg'', [0x4D, 0x61, 0x6E]), (''/in/scan.tiff'', [0x49, 0x49, 0x2A, 0x00]),
                      (''/in/.jpg'', [0xFF, 0xD8, 0xFF])],
      write_error = (\<lambda>p. if take 4 p = ''/ro/'' then Some ''EACCES: permission denied'' else None),
      read_error = (\<lambda>p. ''ENOENT: no such file or directory, open '' @ [CHR 0x27] @ p @ [CHR 0x27]),
      clock = (\<lambda>k. 1700000000000 + k),
      server = (\<lambda>req. answer),
      sent = []\<rparr>"

definition answer_ok :: "json \<Rightarrow> fetch_outcome" where
  "answer_ok j = Response \<lparr>status = 200, statusText = ''OK'', json_body = Inr j\<rparr>"

section \<open>Notions the properties are stated with\<close>

text \<open>
  The payloads of the parts that carry a truthy inline image, in order; the path the
  \<open>k\<close>-th image written by a call goes to; the parts of the first candidate.
\<close>

definition image_payloads :: "GeminiPart list \<Rightarrow> string list" where
  "image_payloads ps =
     List.map_filter
       (\<lambda>p. case inlineData p of Some d \<Rightarrow> if data d \<noteq> [] then Some (data d) else None | None \<Rightarrow> None) ps"

definition saved_path :: "platform \<Rightarrow> string \<Rightarrow> world \<Rightarrow> nat \<Rightarrow> string" where
  "saved_path P outputDir w k = join P outputDir (image_filename (clock w k))"

definition first_parts :: "GeminiResponse \<Rightarrow> GeminiPart list" where
  "first_parts r =
     (case candidates r of
        Some (first # others) \<Rightarrow> GeminiContent.parts (GeminiCandidate.content first)
      | _ \<Rightarrow> [])"

text \<open>
  Also for parts of the declared type: whether a part carries a non-empty inline payload,
  and the non-empty text fields of the parts, in order.
\<close>

definition has_image :: "GeminiPart \<Rightarrow> bool" where
  "has_image p = (case inlineData p of Some d \<Rightarrow> data d \<noteq> [] | None \<Rightarrow> False)"

definition text_parts :: "GeminiPart list \<Rightarrow> string list" where
  "text_parts ps =
     List.map_filter
       (\<lambda>p. case GeminiPart.text p of Some t \<Rightarrow> if t \<noteq> [] then Some t else None | None \<Rightarrow> None) ps"

text \<open>
  For the parts as they arrive: the truthy values of \<^verbatim>\<open>inlineData.data\<close> and the truthy
  values of \<^verbatim>\<open>text\<close>, in order, and the parts the loop of \<^verbatim>\<open>extractResult\<close> visits on a
  response (none when it does not get to the loop).
\<close>

definition image_values :: "json list \<Rightarrow> json list" where
  "image_values ps =
     List.map_filter (\<lambda>p. if js_truthy (inline_data p) then inline_data p else None) ps"

definition text_values :: "json list \<Rightarrow> json list" where
  "text_values ps =
     List.map_filter (\<lambda>p. if js_truthy (get_prop p ''text'') then get_prop p ''text'' else None) ps"

definition visited_parts :: "json \<Rightarrow> json list" where
  "visited_parts response =
     (case read_prop (Some response) ''candidates'' of
        Inl e \<Rightarrow> []
      | Inr c \<Rightarrow>
          if no_candidates c then []
          else (case first_parts_json c of
                  Inl e \<Rightarrow> []
                | Inr parts0 \<Rightarrow> (case iterate parts0 of Inl e \<Rightarrow> [] | Inr ps \<Rightarrow> ps)))"

text \<open>
  The description the image handlers report: the truthy text values as strings, joined by
  a newline, or \<^verbatim>\<open>null\<close> when there is none.
\<close>

definition description_of :: "platform \<Rightarrow> json list \<Rightarrow> json" where
  "description_of P ps =
     (if text_values ps = [] then JNull
      else (case sequence (map (js_to_string P) (text_values ps)) of
              Some strs \<Rightarrow> JStr (join_with [CHR 0x0A] strs)
            | None \<Rightarrow> JNull))"



text \<open>The members of an object.\<close>

definition members :: "json \<Rightarrow> (string \<times> json) list" where
  "members v = (case v of JObj ms \<Rightarrow> ms | _ \<Rightarrow> [])"

section \<open>Sample inputs\<close>

definition text_part :: "string \<Rightarrow> GeminiPart" where
  "text_part s = \<lparr>GeminiPart.text = Some s, inlineData = None\<rparr>"

definition image_part :: "string \<Rightarrow> GeminiPart" where
  "image_part d = \<lparr>GeminiPart.text = None, inlineData = Some \<lparr>mimeType = ''image/png'', data = d\<rparr>\<rparr>"

definition candidate :: "GeminiPart list \<Rightarrow> GeminiCandidate" where
  "candidate ps = \<lparr>GeminiCandidate.content = \<lparr>GeminiContent.parts = ps, role = ''model''\<rparr>\<rparr>"

definition response_of :: "GeminiPart list \<Rightarrow> GeminiResponse" where
  "response_of ps = \<lparr>candidates = Some [candidate ps], error = None\<rparr>"

definition options_with :: "string list \<Rightarrow> string option \<Rightarrow> string option \<Rightarrow> GenerateOptions" where
  "options_with ms a s =
     \<lparr>GenerateOptions.model = flash,
      parts = [\<lparr>GeminiPart.text = Some ''a red fox'', inlineData = None\<rparr>],
      responseModalities = ms, aspectRatio = a, imageSize = s\<rparr>"

text \<open>A failure response; without a body, \<^verbatim>\<open>json()\<close> rejects.\<close>

definition answer_failure :: "nat \<Rightarrow> string \<Rightarrow> json option \<Rightarrow> fetch_outcome" where
  "answer_failure st txt b =
     Response \<lparr>status = st, statusText = txt,
               json_body = (case b of None \<Rightarrow> Inl ''Unexpected end of JSON input'' | Some j \<Rightarrow> Inr j)\<rparr>"

text \<open>
  Bodies of success responses: one candidate with the given parts; a candidate that was
  stopped by the safety filter and has no content; an error descriptor without candidates.
\<close>

definition body_of :: "GeminiPart list \<Rightarrow> json" where
  "body_of ps =
     JObj [(''candidates'',
              JArr [JObj [(''content'', JObj [(''parts'', JArr (map part_json ps)), (''role'', JStr ''model'')]),
                          (''finishReason'', JStr ''STOP'')]])]"

definition safety_body :: json where
  "safety_body = JObj [(''candidates'', JArr [JObj [(''finishReason'', JStr ''SAFETY'')]])]"

definition blocked_body :: json where
  "blocked_body = JObj [(''error'', JObj [(''code'', JNum 403), (''message'', JStr ''blocked'')])]"

definition sample_generate_args :: generate_args where
  "sample_generate_args =
     \<lparr>generate_args.prompt = ''a red fox'', model = flash, aspect_ratio = ''1:1'', image_size = ''1K'',
      output_dir = ''out''\<rparr>"

definition sample_edit_args :: "string \<Rightarrow> edit_args" where
  "sample_edit_args path =
     \<lparr>edit_args.image_path = path, instruction = ''make it night'', model = pro,
      aspect_ratio = None, image_size = ''1K'', output_dir = ''out''\<rparr>"

definition sample_compose_args :: "string \<Rightarrow> compose_args" where
  "sample_compose_args dir =
     \<lparr>image_paths = [''/in/cat.jpg'', ''/in/scan.tiff''], instruction = ''blend these'',
      model = pro, aspect_ratio = ''1:1'', image_size = ''1K'', output_dir = dir\<rparr>"

definition sample_describe_args :: describe_args where
  "sample_describe_args =
     \<lparr>describe_args.image_path = ''/in/cat.jpg'', prompt = ''Describe this image in detail.'',
      model = flash\<rparr>"

section \<open>Properties of \<^verbatim>\<open>extractResult\<close>\<close>

lemma text_parts_Nil [simp]: "text_parts [] = []"
  by (simp add: text_parts_def)

lemma text_parts_Cons:
  "text_parts (p # ps) =
     (case GeminiPart.text p of Some t \<Rightarrow> if t \<noteq> [] then t # text_parts ps else text_parts ps
      | None \<Rightarrow> text_parts ps)"
  by (simp add: text_parts_def split: option.splits)

lemma image_payloads_Nil [simp]: "image_payloads [] = []"
  by (simp add: image_payloads_def)

lemma image_payloads_Cons:
  "image_payloads (p # ps) =
     (case inlineData p of Some d \<Rightarrow> if data d \<noteq> [] then data d # image_payloads ps else image_payloads ps
      | None \<Rightarrow> image_payloads ps)"
  by (simp add: image_payloads_def split: option.splits)

lemma saveBase64Image_eq:
  "saveBase64Image P b dir w =
     (case write_error w (saved_path P dir w 0) of
        Some m \<Rightarrow> (Inl (SystemError m), w\<lparr>clock := \<lambda>k. clock w (Suc k)\<rparr>)
      | None \<Rightarrow>
          (Inr (saved_path P dir w 0),
           w\<lparr>clock := \<lambda>k. clock w (Suc k),
             files := (files w)(saved_path P dir w 0 \<mapsto> fromBase64 P b)\<rparr>))"
  by (simp add: saveBase64Image_def Date_now_def writeFileSync_def saved_path_def Let_def
      split: option.splits)

lemma saved_path_shift [simp]:
  "saved_path P dir (w\<lparr>clock := \<lambda>k. clock w (Suc k), files := f\<rparr>) k = saved_path P dir w (Suc k)"
  by (simp add: saved_path_def)

lemma extract_parts_Inr:
  "extract_parts P dir ps tp ip w = (Inr (tp', ip'), w') \<Longrightarrow>
     tp' = tp @ text_parts ps \<and>
     ip' = (if image_payloads ps = [] then ip
            else Some (saved_path P dir w (length (image_payloads ps) - 1))) \<and>
     (image_payloads ps = [] \<longrightarrow> w' = w) \<and>
     (image_payloads ps \<noteq> [] \<longrightarrow>
        files w' (saved_path P dir w (length (image_payloads ps) - 1)) =
          Some (fromBase64 P (last (image_payloads ps)))) \<and>
     (\<forall>k < length (image_payloads ps). write_error w (saved_path P dir w k) = None) \<and>
     write_error w' = write_error w \<and> read_error w' = read_error w \<and>
     server w' = server w \<and> sent w' = sent w \<and>
     clock w' = (\<lambda>k. clock w (k + length (image_payloads ps)))"
proof (induction ps arbitrary: tp ip w)
  case Nil
  then show ?case by simp
next
  case (Cons p ps)
  let ?tp = "case GeminiPart.text p of Some t \<Rightarrow> if t \<noteq> [] then tp @ [t] else tp | None \<Rightarrow> tp"
  have tp_eq: "?tp @ text_parts ps = tp @ text_parts (p # ps)"
    by (simp add: text_parts_Cons split: option.splits)
  show ?case
  proof (cases "has_image p")
    case False
    then have no: "image_payloads (p # ps) = image_payloads ps"
      by (auto simp: image_payloads_Cons has_image_def split: option.splits)
    from False Cons.prems have "extract_parts P dir ps ?tp ip w = (Inr (tp', ip'), w')"
      by (auto simp: has_image_def Let_def split: option.splits if_splits)
    from Cons.IH [OF this] show ?thesis
      unfolding no tp_eq by simp
  next
    case True
    then obtain d where d: "inlineData p = Some d" "data d \<noteq> []"
      by (auto simp: has_image_def split: option.splits)
    then have pay: "image_payloads (p # ps) = data d # image_payloads ps"
      by (simp add: image_payloads_Cons)
    let ?p0 = "saved_path P dir w 0"
    let ?w1 = "w\<lparr>clock := \<lambda>k. clock w (Suc k), files := (files w)(?p0 \<mapsto> fromBase64 P (data d))\<rparr>"
    from Cons.prems d have we: "write_error w ?p0 = None"
      by (auto simp: Let_def saveBase64Image_eq split: option.splits)
    with Cons.prems d have rec: "extract_parts P dir ps ?tp (Some ?p0) ?w1 = (Inr (tp', ip'), w')"
      by (simp add: Let_def saveBase64Image_eq)
    note IH = Cons.IH [OF rec]
    show ?thesis
    proof (cases "image_payloads ps = []")
      case True
      with IH we show ?thesis unfolding pay tp_eq by simp
    next
      case False
      then have len: "length (image_payloads ps) - 1 + 1 = length (image_payloads ps)"
        by (cases "image_payloads ps") simp_all
      from False IH we show ?thesis unfolding pay tp_eq
        apply (simp add: len less_Suc_eq_0_disj)
        apply (auto simp: len)
        done
    qed
  qed
qed

lemma extract_parts_returns:
  "\<forall>k < length (image_payloads ps). write_error w (saved_path P dir w k) = None \<Longrightarrow>
     \<exists>r w'. extract_parts P dir ps tp ip w = (Inr r, w')"
proof (induction ps arbitrary: tp ip w)
  case Nil
  then show ?case by simp
next
  case (Cons p ps)
  show ?case
  proof (cases "has_image p")
    case False
    then have no: "image_payloads (p # ps) = image_payloads ps"
      by (auto simp: image_payloads_Cons has_image_def split: option.splits)
    from Cons.prems have "\<forall>k < length (image_payloads ps). write_error w (saved_path P dir w k) = None"
      unfolding no .
    from Cons.IH [OF this] False show ?thesis
      by (auto simp: has_image_def Let_def split: option.splits)
  next
    case True
    then obtain d where d: "inlineData p = Some d" "data d \<noteq> []"
      by (auto simp: has_image_def split: option.splits)
    then have pay: "image_payloads (p # ps) = data d # image_payloads ps"
      by (simp add: image_payloads_Cons)
    let ?p0 = "saved_path P dir w 0"
    let ?w1 = "w\<lparr>clock := \<lambda>k. clock w (Suc k), files := (files w)(?p0 \<mapsto> fromBase64 P (data d))\<rparr>"
    from Cons.prems have we: "write_error w ?p0 = None"
      unfolding pay by auto
    from Cons.prems
    have "\<forall>k < length (image_payloads ps). write_error ?w1 (saved_path P dir ?w1 k) = None"
      unfolding pay by auto
    from Cons.IH [OF this] d we show ?thesis
      by (simp add: Let_def saveBase64Image_eq)
  qed
qed

text \<open>
  C1 (amended). A response without candidates: with no error descriptor the result has both
  fields null and nothing is written; with one, a \<^verbatim>\<open>GeminiApiError\<close> is thrown that carries
  the descriptor's message and its code, or 500 when the code is unset or zero.
\<close>

theorem extractResult_no_candidates:
  assumes "candidates r = None \<or> candidates r = Some []"
  shows "(error r = None \<longrightarrow>
            extractResult P r dir w = (Inr \<lparr>text = None, imagePath = None\<rparr>, w)) \<and>
         (\<forall>e c. error r = Some e \<and> code e = Some c \<and> c \<noteq> 0 \<longrightarrow>
            extractResult P r dir w = (Inl (GeminiApiError c (GeminiErrorInfo.message e)), w)) \<and>
         (\<forall>e. error r = Some e \<and> (code e = None \<or> code e = Some 0) \<longrightarrow>
            extractResult P r dir w = (Inl (GeminiApiError 500 (GeminiErrorInfo.message e)), w))"
  using assms by (auto simp: extractResult_def)

theorem extractResult_no_candidates_witness:
  "extractResult posix \<lparr>candidates = Some [], error = None\<rparr> ''.'' (sample_world (Rejected ''offline'')) =
     (Inr \<lparr>text = None, imagePath = None\<rparr>, sample_world (Rejected ''offline'')) \<and>
   extractResult posix
       \<lparr>candidates = None, error = Some \<lparr>GeminiErrorInfo.message = ''blocked'', code = Some 403\<rparr>\<rparr> ''.''
       (sample_world (Rejected ''offline'')) =
     (Inl (GeminiApiError 403 ''blocked''), sample_world (Rejected ''offline'')) \<and>
   extractResult posix
       \<lparr>candidates = None, error = Some \<lparr>GeminiErrorInfo.message = ''blocked'', code = None\<rparr>\<rparr> ''.''
       (sample_world (Rejected ''offline'')) =
     (Inl (GeminiApiError 500 ''blocked''), sample_world (Rejected ''offline''))"
  using extractResult_no_candidates
          [of "\<lparr>candidates = Some [], error = None\<rparr>" posix "''.''" "sample_world (Rejected ''offline'')"]
        extractResult_no_candidates
          [of "\<lparr>candidates = None, error = Some \<lparr>GeminiErrorInfo.message = ''blocked'', code = Some 403\<rparr>\<rparr>"
              posix "''.''" "sample_world (Rejected ''offline'')"]
        extractResult_no_candidates
          [of "\<lparr>candidates = None, error = Some \<lparr>GeminiErrorInfo.message = ''blocked'', code = None\<rparr>\<rparr>"
              posix "''.''" "sample_world (Rejected ''offline'')"]
  by simp

text \<open>
  A descriptor whose code is 0 is reported with status 500, not with its own code.
\<close>

theorem extractResult_code_zero_counterexample:
  "fst (extractResult posix
          \<lparr>candidates = None, error = Some \<lparr>GeminiErrorInfo.message = ''blocked'', code = Some 0\<rparr>\<rparr> ''.''
          (sample_world (Rejected ''offline''))) = Inl (GeminiApiError 500 ''blocked'') \<and>
   fst (extractResult posix
          \<lparr>candidates = None, error = Some \<lparr>GeminiErrorInfo.message = ''blocked'', code = Some 0\<rparr>\<rparr> ''.''
          (sample_world (Rejected ''offline''))) \<noteq> Inl (GeminiApiError 0 ''blocked'')"
  by (simp add: extractResult_def)

text \<open>
  C3 (amended). A response with a candidate: the candidates after the first change nothing;
  when the call returns, the text is the non-empty text fields of the first candidate's
  parts in order, joined by a newline (null when there is none), the image path is the path
  written for the last part with a non-empty inline payload (null when there is none), and
  that file holds the decoded payload of that part; the call returns whenever no write is
  refused.
\<close>

theorem extractResult_first_candidate:
  assumes "candidates r = Some (first # others)"
  shows "extractResult P r dir w = extractResult P (r\<lparr>candidates := Some [first]\<rparr>) dir w \<and>
         (\<forall>res w'. extractResult P r dir w = (Inr res, w') \<longrightarrow>
            ExtractedResult.text res =
              (if text_parts (first_parts r) = [] then None
               else Some (join_with [CHR 0x0A] (text_parts (first_parts r)))) \<and>
            imagePath res =
              (if image_payloads (first_parts r) = [] then None
               else Some (saved_path P dir w (length (image_payloads (first_parts r)) - 1))) \<and>
            (image_payloads (first_parts r) \<noteq> [] \<longrightarrow>
               files w' (saved_path P dir w (length (image_payloads (first_parts r)) - 1)) =
                 Some (fromBase64 P (last (image_payloads (first_parts r)))))) \<and>
         ((\<forall>k < length (image_payloads (first_parts r)).
              write_error w (saved_path P dir w k) = None) \<longrightarrow>
            (\<exists>res w'. extractResult P r dir w = (Inr res, w')))"
proof (intro conjI allI impI)
  show "extractResult P r dir w = extractResult P (r\<lparr>candidates := Some [first]\<rparr>) dir w"
    using assms by (simp add: extractResult_def)
next
  fix res w'
  assume ret: "extractResult P r dir w = (Inr res, w')"
  let ?ps = "GeminiContent.parts (GeminiCandidate.content first)"
  have fp: "first_parts r = ?ps"
    using assms by (simp add: first_parts_def)
  from ret assms obtain tp ip where
    ep: "extract_parts P dir ?ps [] None w = (Inr (tp, ip), w')" and
    res: "res = \<lparr>text = (if tp \<noteq> [] then Some (join_with [CHR 0x0A] tp) else None), imagePath = ip\<rparr>"
    by (auto simp: extractResult_def split: prod.splits sum.splits)
  note E = extract_parts_Inr [OF ep]
  show "ExtractedResult.text res =
          (if text_parts (first_parts r) = [] then None
           else Some (join_with [CHR 0x0A] (text_parts (first_parts r))))"
    using E res fp by simp
  show "imagePath res =
          (if image_payloads (first_parts r) = [] then None
           else Some (saved_path P dir w (length (image_payloads (first_parts r)) - 1)))"
    using E res fp by simp
  show "files w' (saved_path P dir w (length (image_payloads (first_parts r)) - 1)) =
          Some (fromBase64 P (last (image_payloads (first_parts r))))"
    if "image_payloads (first_parts r) \<noteq> []"
    using E that fp by simp
next
  assume "\<forall>k < length (image_payloads (first_parts r)). write_error w (saved_path P dir w k) = None"
  moreover have "first_parts r = GeminiContent.parts (GeminiCandidate.content first)"
    using assms by (simp add: first_parts_def)
  ultimately obtain x w' where
    "extract_parts P dir (GeminiContent.parts (GeminiCandidate.content first)) [] None w = (Inr x, w')"
    using extract_parts_returns [of "GeminiContent.parts (GeminiCandidate.content first)" w P dir "[]" None]
    by auto
  then show "\<exists>res w'. extractResult P r dir w = (Inr res, w')"
    using assms by (cases x) (simp add: extractResult_def)
qed

section \<open>Evaluation on the sample inputs\<close>

lemma show_nat_values:
  "show_nat 1700000000000 = ''1700000000000''"
  "show_nat 1700000000001 = ''1700000000001''"
  "show_nat 1700000000002 = ''1700000000002''"
  "show_nat 429 = ''429''"
  "show_nat 500 = ''500''"
  "show_nat 403 = ''403''"
  by (simp_all add: show_nat.simps)

lemmas posix_simps =
  posix_def posix_join_def posix_normalize_def normalize_step_def posix_extname_def
  base64_alphabet_def base64_decode_def base64_value_def
  json_quote_def json_escape_def hex_digit_def show_int_def
lemmas world_simps = sample_world_def answer_ok_def

lemmas sample_defs = text_part_def image_part_def candidate_def response_of_def

text \<open>
  C3, on the response of the spec's example: two text parts and an image part.
\<close>

theorem extractResult_first_candidate_witness:
  "fst (extractResult posix (response_of [text_part ''A'', image_part ''TWFu'', text_part ''B'']) ''out'' (sample_world (Rejected ''offline''))) =
     Inr \<lparr>text = Some (''A'' @ [CHR 0x0A] @ ''B''),
          imagePath = Some ''out/nano-banana-1700000000000.png''\<rparr> \<and>
   files (snd (extractResult posix (response_of [text_part ''A'', image_part ''TWFu'', text_part ''B'']) ''out'' (sample_world (Rejected ''offline''))))
     ''out/nano-banana-1700000000000.png'' = Some [0x4D, 0x61, 0x6E]"
  using extractResult_first_candidate
          [of "response_of [text_part ''A'', image_part ''TWFu'', text_part ''B'']"
              "candidate [text_part ''A'', image_part ''TWFu'', text_part ''B'']" "[]"
              posix "''out''" "sample_world (Rejected ''offline'')"]
  by (simp add: sample_defs extractResult_def saveBase64Image_eq saved_path_def
      image_filename_def posix_simps world_simps show_nat_values)

text \<open>
  A part whose text field is the empty string has a text field, and contributes nothing:
  the text is not the join of all the text fields. And where the directory refuses the
  write, the call throws instead of returning.
\<close>

theorem extractResult_empty_text_counterexample:
  "fst (extractResult posix (response_of [text_part ''A'', text_part [], text_part ''B'']) ''out''
          (sample_world (Rejected ''offline''))) \<noteq>
     Inr \<lparr>text = Some (join_with [CHR 0x0A]
                          (List.map_filter GeminiPart.text
                             (first_parts (response_of [text_part ''A'', text_part [], text_part ''B''])))),
          imagePath = None\<rparr> \<and>
   fst (extractResult posix (response_of [text_part ''A'', text_part [], text_part ''B'']) ''out''
          (sample_world (Rejected ''offline''))) =
     Inr \<lparr>text = Some (''A'' @ [CHR 0x0A] @ ''B''), imagePath = None\<rparr> \<and>
   fst (extractResult posix (response_of [image_part ''QQ=='']) ''/ro/out''
          (sample_world (Rejected ''offline''))) =
     Inl (SystemError ''EACCES: permission denied'')"
  by (simp add: sample_defs extractResult_def first_parts_def saveBase64Image_eq saved_path_def
      image_filename_def posix_simps world_simps show_nat_values)

section \<open>Properties of \<^verbatim>\<open>generateContent\<close>\<close>





text \<open>
  C2. A failure response whose body is the JSON document \<^verbatim>\<open>null\<close>: the read of
  \<^verbatim>\<open>message\<close> throws a \<^verbatim>\<open>TypeError\<close> before the status is looked at, for status 429 as for
  any other, so no \<^verbatim>\<open>GeminiApiError\<close> is raised.
\<close>

theorem generateContent_null_body:
  "fst (generateContent posix (options_with [''TEXT'', ''IMAGE''] None None)
          (sample_world (answer_failure 429 ''Too Many Requests'' (Some JNull)))) =
     Inl (TypeError ''Cannot read properties of null (reading 'message')'') \<and>
   fst (generateContent posix (options_with [''TEXT'', ''IMAGE''] None None)
          (sample_world (answer_failure 500 ''Internal Server Error'' (Some JNull)))) =
     Inl (TypeError ''Cannot read properties of null (reading 'message')'')"
  by (simp add: generateContent_def fetch_def ok_def derive_msg_def world_simps answer_failure_def)

text \<open>
  For every other body the failure path is as described: the fixed message for status 429,
  and otherwise the status with the message derived from the body or the status text.
\<close>

lemma generateContent_failure:
  assumes "server w (build_request P options) = Response r" and "\<not> ok r"
    and "json_body r \<noteq> Inr JNull"
  shows "status r = 429 \<longrightarrow>
           fst (generateContent P options w) = Inl (GeminiApiError 429 RATE_LIMIT_MESSAGE)"
    and "status r \<noteq> 429 \<longrightarrow>
           (\<exists>msg. derive_msg (case json_body r of Inl m \<Rightarrow> JObj [] | Inr j \<Rightarrow> j) (statusText r) = Inr msg \<and>
              fst (generateContent P options w) =
                (case js_to_string P msg of
                   None \<Rightarrow> Inl (TypeError ''Cannot convert object to primitive value'')
                 | Some m \<Rightarrow>
                     Inl (GeminiApiError (int (status r))
                            (''Gemini API error ('' @ show_nat (status r) @ ''): '' @ m))))"
  using assms
  by (auto simp: generateContent_def fetch_def derive_msg_def Let_def
      split: option.splits sum.splits)

lemma generateContent_failure_examples:
  "fst (generateContent posix (options_with [''TEXT'', ''IMAGE''] None None)
          (sample_world (answer_failure 429 ''Too Many Requests''
             (Some (JObj [(''error'', JObj [(''message'', JStr ''quota'')])]))))) =
     Inl (GeminiApiError 429 RATE_LIMIT_MESSAGE)"
  "fst (generateContent posix (options_with [''TEXT'', ''IMAGE''] None None)
          (sample_world (answer_failure 500 ''Internal Server Error''
             (Some (JObj [(''error'', JObj [(''message'', JStr ''backend down'')])]))))) =
     Inl (GeminiApiError 500 ''Gemini API error (500): backend down'')"
  "fst (generateContent posix (options_with [''TEXT'', ''IMAGE''] None None)
          (sample_world (answer_failure 403 ''Forbidden'' None))) =
     Inl (GeminiApiError 403 ''Gemini API error (403): Forbidden'')"
  by (simp_all add: generateContent_def fetch_def ok_def derive_msg_def world_simps answer_failure_def
      show_nat_values)

section \<open>Properties of \<^verbatim>\<open>readImageAsBase64\<close>\<close>

lemma mimeMap_cases:
  "map_of mimeMap ext =
     (if ext = ''.png'' then Some ''image/png''
      else if ext = ''.jpg'' then Some ''image/jpeg''
      else if ext = ''.jpeg'' then Some ''image/jpeg''
      else if ext = ''.gif'' then Some ''image/gif''
      else if ext = ''.webp'' then Some ''image/webp''
      else if ext = ''.bmp'' then Some ''image/bmp''
      else None)"
  by (simp add: mimeMap_def)

lemma posix_fields:
  "extname posix = posix_extname"
  "join posix = posix_join"
  "toBase64 posix = (\<lambda>bytes. base64_encode (map unat bytes))"
  "fromBase64 posix = (\<lambda>s. map of_nat (base64_decode s))"
  "numberToString posix = show_int"
  "bufferFrom posix = buffer_from"
  "API_KEY posix = ''test-key''"
  by (simp_all add: posix_def)

lemma lowered_jpg: "toLowerCase ''.jpg'' = ''.jpg''" "toLowerCase ''.JPG'' = ''.jpg''"
  by (simp_all add: toLowerCase_def lower_char_def)

text \<open>
  The extension \<^verbatim>\<open>path.extname\<close> finds, on the sample platform: a name that ends in a dot
  and three characters has that ending for extension, unless there is nothing before the
  dot; a name that starts with its only dot has no extension.
\<close>

lemma takeWhile_rev_pre:
  "pre = [] \<or> last pre = CHR ''/'' \<Longrightarrow> takeWhile (\<lambda>c. c \<noteq> CHR ''/'') (rev pre) = []"
  by (cases pre rule: rev_cases) auto

lemma posix_extname_suffix:
  assumes "name \<noteq> []" and "CHR ''/'' \<notin> set name" and "pre = [] \<or> last pre = CHR ''/''"
    and "ext = [CHR ''.'', a, b, c]"
    and "CHR ''/'' \<notin> {a, b, c}" and "CHR ''.'' \<notin> {a, b, c}"
  shows "posix_extname (pre @ name @ ext) = ext"
proof -
  have r: "rev (pre @ name @ ext) = ([c, b, a, CHR ''.''] @ rev name) @ rev pre"
    by (simp add: assms(4))
  have d: "dropWhile (\<lambda>c. c = CHR ''/'') (rev (pre @ name @ ext)) = rev (pre @ name @ ext)"
    using assms(5) by (auto simp: assms(4))
  have "takeWhile (\<lambda>c. c \<noteq> CHR ''/'') (([c, b, a, CHR ''.''] @ rev name) @ rev pre) =
          ([c, b, a, CHR ''.''] @ rev name) @ takeWhile (\<lambda>c. c \<noteq> CHR ''/'') (rev pre)"
    using assms(2,5) by (intro takeWhile_append2) auto
  then have tb: "takeWhile (\<lambda>c. c \<noteq> CHR ''/'') (rev (pre @ name @ ext)) = [c, b, a, CHR ''.''] @ rev name"
    unfolding r using takeWhile_rev_pre [OF assms(3)] by simp
  have base: "rev (takeWhile (\<lambda>c. c \<noteq> CHR ''/'')
                (rev (rev (dropWhile (\<lambda>c. c = CHR ''/'') (rev (pre @ name @ ext)))))) = name @ ext"
    unfolding d rev_rev_ident tb by (simp add: assms(4))
  have after: "rev (takeWhile (\<lambda>c. c \<noteq> CHR ''.'') (rev (name @ ext))) = [a, b, c]"
    using assms(6) by (auto simp: assms(4))
  show ?thesis
    unfolding posix_extname_def Let_def base after
    using assms(1) by (auto simp: assms(4))
qed

lemma posix_extname_hidden:
  assumes "pre = [] \<or> last pre = CHR ''/''"
    and "ext = [CHR ''.'', a, b, c]"
    and "CHR ''/'' \<notin> {a, b, c}" and "CHR ''.'' \<notin> {a, b, c}"
  shows "posix_extname (pre @ ext) = []"
proof -
  have r: "rev (pre @ ext) = [c, b, a, CHR ''.''] @ rev pre"
    by (simp add: assms(2))
  have d: "dropWhile (\<lambda>c. c = CHR ''/'') (rev (pre @ ext)) = rev (pre @ ext)"
    using assms(3) by (auto simp: assms(2))
  have "takeWhile (\<lambda>c. c \<noteq> CHR ''/'') ([c, b, a, CHR ''.''] @ rev pre) =
          [c, b, a, CHR ''.''] @ takeWhile (\<lambda>c. c \<noteq> CHR ''/'') (rev pre)"
    using assms(3) by (intro takeWhile_append2) auto
  then have tb: "takeWhile (\<lambda>c. c \<noteq> CHR ''/'') (rev (pre @ ext)) = [c, b, a, CHR ''.'']"
    unfolding r using takeWhile_rev_pre [OF assms(1)] by simp
  have base: "rev (takeWhile (\<lambda>c. c \<noteq> CHR ''/'')
                (rev (rev (dropWhile (\<lambda>c. c = CHR ''/'') (rev (pre @ ext)))))) = ext"
    unfolding d rev_rev_ident tb by (simp add: assms(2))
  have after: "rev (takeWhile (\<lambda>c. c \<noteq> CHR ''.'') (rev ext)) = [a, b, c]"
    using assms(4) by (auto simp: assms(2))
  show ?thesis
    unfolding posix_extname_def Let_def base after
    by (simp add: assms(2))
qed

text \<open>
  C8 (amended). When the file can be read, the data is the base64 encoding of its bytes and
  the MIME type is looked up in the table under the lower-cased extension, \<^verbatim>\<open>image/png\<close>
  for an extension the table does not have; a path with the same extension gets the same
  type, whatever the file holds. With the \<^verbatim>\<open>extname\<close> of the sample platform, a path whose
  last component is a non-empty name followed by \<^verbatim>\<open>.jpg\<close> or \<^verbatim>\<open>.JPG\<close> yields
  \<^verbatim>\<open>image/jpeg\<close>, and a path whose last component is \<^verbatim>\<open>.jpg\<close> alone yields \<^verbatim>\<open>image/png\<close>.
\<close>

theorem readImageAsBase64_mime:
  assumes "files w filePath = Some buffer"
  shows "(\<exists>m. readImageAsBase64 P filePath w = (Inr \<lparr>mimeType = m, data = toBase64 P buffer\<rparr>, w) \<and>
           (toLowerCase (extname P filePath) = ''.png'' \<longrightarrow> m = ''image/png'') \<and>
           (toLowerCase (extname P filePath) = ''.jpg'' \<longrightarrow> m = ''image/jpeg'') \<and>
           (toLowerCase (extname P filePath) = ''.jpeg'' \<longrightarrow> m = ''image/jpeg'') \<and>
           (toLowerCase (extname P filePath) = ''.gif'' \<longrightarrow> m = ''image/gif'') \<and>
           (toLowerCase (extname P filePath) = ''.webp'' \<longrightarrow> m = ''image/webp'') \<and>
           (toLowerCase (extname P filePath) = ''.bmp'' \<longrightarrow> m = ''image/bmp'') \<and>
           (toLowerCase (extname P filePath) \<notin> {''.png'', ''.jpg'', ''.jpeg'', ''.gif'', ''.webp'', ''.bmp''} \<longrightarrow>
              m = ''image/png'') \<and>
           (\<forall>w' filePath' buffer'.
              files w' filePath' = Some buffer' \<and> extname P filePath' = extname P filePath \<longrightarrow>
              readImageAsBase64 P filePath' w' =
                (Inr \<lparr>mimeType = m, data = toBase64 P buffer'\<rparr>, w'))) \<and>
         (\<forall>pre name ext.
            filePath = pre @ name @ ext \<and> (pre = [] \<or> last pre = CHR ''/'') \<and>
            name \<noteq> [] \<and> CHR ''/'' \<notin> set name \<and> (ext = ''.jpg'' \<or> ext = ''.JPG'') \<longrightarrow>
            readImageAsBase64 posix filePath w =
              (Inr \<lparr>mimeType = ''image/jpeg'', data = toBase64 posix buffer\<rparr>, w)) \<and>
         (\<forall>pre ext.
            filePath = pre @ ext \<and> (pre = [] \<or> last pre = CHR ''/'') \<and>
            (ext = ''.jpg'' \<or> ext = ''.JPG'') \<longrightarrow>
            readImageAsBase64 posix filePath w =
              (Inr \<lparr>mimeType = ''image/png'', data = toBase64 posix buffer\<rparr>, w))"
proof (intro conjI allI impI)
  show "\<exists>m. readImageAsBase64 P filePath w = (Inr \<lparr>mimeType = m, data = toBase64 P buffer\<rparr>, w) \<and>
           (toLowerCase (extname P filePath) = ''.png'' \<longrightarrow> m = ''image/png'') \<and>
           (toLowerCase (extname P filePath) = ''.jpg'' \<longrightarrow> m = ''image/jpeg'') \<and>
           (toLowerCase (extname P filePath) = ''.jpeg'' \<longrightarrow> m = ''image/jpeg'') \<and>
           (toLowerCase (extname P filePath) = ''.gif'' \<longrightarrow> m = ''image/gif'') \<and>
           (toLowerCase (extname P filePath) = ''.webp'' \<longrightarrow> m = ''image/webp'') \<and>
           (toLowerCase (extname P filePath) = ''.bmp'' \<longrightarrow> m = ''image/bmp'') \<and>
           (toLowerCase (extname P filePath) \<notin> {''.png'', ''.jpg'', ''.jpeg'', ''.gif'', ''.webp'', ''.bmp''} \<longrightarrow>
              m = ''image/png'') \<and>
           (\<forall>w' filePath' buffer'.
              files w' filePath' = Some buffer' \<and> extname P filePath' = extname P filePath \<longrightarrow>
              readImageAsBase64 P filePath' w' =
                (Inr \<lparr>mimeType = m, data = toBase64 P buffer'\<rparr>, w'))"
    using assms
    by (simp add: readImageAsBase64_def readFileSync_def Let_def mimeMap_cases)
next
  fix pre name ext
  assume h: "filePath = pre @ name @ ext \<and> (pre = [] \<or> last pre = CHR ''/'') \<and>
            name \<noteq> [] \<and> CHR ''/'' \<notin> set name \<and> (ext = ''.jpg'' \<or> ext = ''.JPG'')"
  then have "posix_extname filePath = ext"
    by (auto intro!: posix_extname_suffix)
  with h assms show "readImageAsBase64 posix filePath w =
              (Inr \<lparr>mimeType = ''image/jpeg'', data = toBase64 posix buffer\<rparr>, w)"
    by (auto simp: readImageAsBase64_def readFileSync_def Let_def mimeMap_cases lowered_jpg
        posix_fields(1))
next
  fix pre ext
  assume h: "filePath = pre @ ext \<and> (pre = [] \<or> last pre = CHR ''/'') \<and>
            (ext = ''.jpg'' \<or> ext = ''.JPG'')"
  then have "posix_extname filePath = []"
    by (auto intro!: posix_extname_hidden)
  with h assms show "readImageAsBase64 posix filePath w =
              (Inr \<lparr>mimeType = ''image/png'', data = toBase64 posix buffer\<rparr>, w)"
    by (simp add: readImageAsBase64_def readFileSync_def Let_def mimeMap_cases
        posix_fields(1) toLowerCase_def)
qed

theorem readImageAsBase64_mime_witness:
  "readImageAsBase64 posix ''/in/cat.jpg'' (sample_world (Rejected ''offline'')) =
     (Inr \<lparr>mimeType = ''image/jpeg'', data = ''TWFu''\<rparr>, sample_world (Rejected ''offline'')) \<and>
   readImageAsBase64 posix ''/in/scan.tiff'' (sample_world (Rejected ''offline'')) =
     (Inr \<lparr>mimeType = ''image/png'', data = ''SUkqAA==''\<rparr>, sample_world (Rejected ''offline''))"
  using readImageAsBase64_mime [of "sample_world (Rejected ''offline'')" "''/in/cat.jpg''" "[0x4D, 0x61, 0x6E]" posix]
        readImageAsBase64_mime [of "sample_world (Rejected ''offline'')" "''/in/scan.tiff''"
          "[0x49, 0x49, 0x2A, 0x00]" posix]
  by (simp add: readImageAsBase64_def readFileSync_def Let_def mimeMap_def toLowerCase_def lower_char_def
      posix_simps world_simps)

text \<open>
  A file named \<^verbatim>\<open>.jpg\<close>: the path ends in \<^verbatim>\<open>.jpg\<close>, the file has no extension, and the
  type is \<^verbatim>\<open>image/png\<close>.
\<close>

theorem readImageAsBase64_hidden_counterexample:
  "readImageAsBase64 posix ''/in/.jpg'' (sample_world (Rejected ''offline'')) =
     (Inr \<lparr>mimeType = ''image/png'', data = ''/9j/''\<rparr>, sample_world (Rejected ''offline'')) \<and>
   extname posix ''/in/.jpg'' = []"
  by (simp add: readImageAsBase64_def readFileSync_def Let_def mimeMap_def toLowerCase_def lower_char_def
      posix_simps world_simps)

section \<open>Properties of the extraction on the response as it arrives\<close>

lemma image_values_Nil [simp]: "image_values [] = []"
  by (simp add: image_values_def)

lemma image_values_Cons:
  "image_values (p # ps) =
     (case inline_data p of
        Some d \<Rightarrow> if js_truthy (Some d) then d # image_values ps else image_values ps
      | None \<Rightarrow> image_values ps)"
  by (simp add: image_values_def split: option.splits)

lemma text_values_Nil [simp]: "text_values [] = []"
  by (simp add: text_values_def)

lemma text_values_Cons:
  "text_values (p # ps) =
     (case get_prop p ''text'' of
        Some v \<Rightarrow> if js_truthy (Some v) then v # text_values ps else text_values ps
      | None \<Rightarrow> text_values ps)"
  by (simp add: text_values_def split: option.splits)

lemma saveBase64Image_json_eq:
  "saveBase64Image_json P v dir w =
     (case payload_bytes P v of
        Inl m \<Rightarrow> (Inl (TypeError m), w\<lparr>clock := \<lambda>k. clock w (Suc k)\<rparr>)
      | Inr bytes \<Rightarrow>
          (case write_error w (saved_path P dir w 0) of
             Some m \<Rightarrow> (Inl (SystemError m), w\<lparr>clock := \<lambda>k. clock w (Suc k)\<rparr>)
           | None \<Rightarrow>
               (Inr (saved_path P dir w 0),
                w\<lparr>clock := \<lambda>k. clock w (Suc k),
                  files := (files w)(saved_path P dir w 0 \<mapsto> bytes)\<rparr>)))"
  by (simp add: saveBase64Image_json_def Date_now_def writeFileSync_def saved_path_def Let_def
      split: option.splits sum.splits)

lemma saveBase64Image_json_string:
  "saveBase64Image_json P (JStr s) dir w = saveBase64Image P s dir w"
  by (simp add: saveBase64Image_json_eq saveBase64Image_eq payload_bytes_def)

lemma read_prop_Some:
  "p \<noteq> JNull \<Longrightarrow> read_prop (Some p) k = Inr (get_prop p k)"
  by (simp add: read_prop_def)

text \<open>
  The loop, when it returns: no part was \<^verbatim>\<open>null\<close>, the text values collected are the
  truthy ones in order, the path is that of the last image written, and the file there
  holds the bytes of the last truthy payload.
\<close>

lemma extract_parts_json_Inr:
  "extract_parts_json P dir ps tp ip w = (Inr (tp', ip'), w') \<Longrightarrow>
     JNull \<notin> set ps \<and>
     tp' = tp @ text_values ps \<and>
     ip' = (if image_values ps = [] then ip
            else Some (saved_path P dir w (length (image_values ps) - 1))) \<and>
     (image_values ps = [] \<longrightarrow> w' = w) \<and>
     (image_values ps \<noteq> [] \<longrightarrow>
        (\<exists>bytes. payload_bytes P (last (image_values ps)) = Inr bytes \<and>
           files w' (saved_path P dir w (length (image_values ps) - 1)) = Some bytes)) \<and>
     write_error w' = write_error w \<and> read_error w' = read_error w \<and>
     server w' = server w \<and> sent w' = sent w \<and>
     clock w' = (\<lambda>k. clock w (k + length (image_values ps)))"
proof (induction ps arbitrary: tp ip w)
  case Nil
  then show ?case by simp
next
  case (Cons p ps)
  from Cons.prems have pn: "p \<noteq> JNull"
    by (auto simp: read_prop_def split: if_splits)
  let ?tp = "case get_prop p ''text'' of
               Some v \<Rightarrow> if js_truthy (Some v) then tp @ [v] else tp | None \<Rightarrow> tp"
  have tp_eq: "?tp @ text_values ps = tp @ text_values (p # ps)"
    by (simp add: text_values_Cons split: option.splits)
  show ?case
  proof (cases "js_truthy (inline_data p)")
    case False
    then have no: "image_values (p # ps) = image_values ps"
      by (auto simp: image_values_Cons split: option.splits)
    from False Cons.prems pn have "extract_parts_json P dir ps ?tp ip w = (Inr (tp', ip'), w')"
      by (auto simp: read_prop_Some Let_def split: option.splits if_splits)
    from Cons.IH [OF this] pn show ?thesis
      unfolding no tp_eq by simp
  next
    case True
    then obtain d where d: "inline_data p = Some d" "js_truthy (Some d)"
      by (cases "inline_data p") auto
    then have pay: "image_values (p # ps) = d # image_values ps"
      by (simp add: image_values_Cons)
    let ?p0 = "saved_path P dir w 0"
    from Cons.prems d pn obtain bytes where b: "payload_bytes P d = Inr bytes"
      and we: "write_error w ?p0 = None"
      by (auto simp: read_prop_Some Let_def saveBase64Image_json_eq split: option.splits sum.splits)
    let ?w1 = "w\<lparr>clock := \<lambda>k. clock w (Suc k), files := (files w)(?p0 \<mapsto> bytes)\<rparr>"
    from Cons.prems d pn b we
    have rec: "extract_parts_json P dir ps ?tp (Some ?p0) ?w1 = (Inr (tp', ip'), w')"
      by (simp add: read_prop_Some Let_def saveBase64Image_json_eq)
    note IH = Cons.IH [OF rec]
    show ?thesis
    proof (cases "image_values ps = []")
      case True
      with IH we b pn show ?thesis unfolding pay tp_eq by simp
    next
      case False
      then have len: "length (image_values ps) - 1 + 1 = length (image_values ps)"
        by (cases "image_values ps") simp_all
      from False IH we pn show ?thesis unfolding pay tp_eq
        by (simp add: len)
    qed
  qed
qed


lemma find_image_first:
  "JNull \<notin> set ps \<Longrightarrow> image_values ps \<noteq> [] \<Longrightarrow>
     \<exists>p. find_image ps = Inr (Some p) \<and> p \<noteq> JNull \<and> inline_data p = Some (hd (image_values ps))"
proof (induction ps)
  case Nil
  then show ?case by simp
next
  case (Cons p ps)
  then show ?case
    by (cases "inline_data p") (auto simp: image_values_Cons split: if_splits)
qed

lemma inline_data_read:
  "p \<noteq> JNull \<Longrightarrow> inline_data p = Some v \<Longrightarrow>
     (case read_prop (Some p) ''inlineData'' of Inl e \<Rightarrow> Inl e | Inr i \<Rightarrow> read_prop i ''data'') = Inr (Some v)"
  by (auto simp: read_prop_def inline_data_def split: option.splits if_splits)

lemma sequence_Some_Cons:
  "sequence (x # xs) = Some ys \<longleftrightarrow> (\<exists>y ys'. x = Some y \<and> sequence xs = Some ys' \<and> ys = y # ys')"
  by (auto split: option.splits)

lemma sequence_strings_json:
  "sequence (map (js_to_string P) (map JStr strs)) = Some strs"
  by (induction strs) simp_all

lemma as_GeminiPart_props:
  assumes "as_GeminiPart p = Some t"
  shows "p \<noteq> JNull"
    and "get_prop p ''text'' = map_option JStr (GeminiPart.text t)"
    and "inline_data p = map_option (\<lambda>d. JStr (data d)) (inlineData t)"
  using assms
  by (auto simp: as_GeminiPart_def optional_def as_string_def as_InlineData_def inline_data_def
      split: json.splits option.splits prod.splits)

lemma extract_parts_json_conforming:
  "sequence (map as_GeminiPart ps) = Some tps \<Longrightarrow>
     extract_parts_json P dir ps (map JStr tp) ip w =
       (case extract_parts P dir tps tp ip w of
          (Inl e, w') \<Rightarrow> (Inl e, w')
        | (Inr (tp', ip'), w') \<Rightarrow> (Inr (map JStr tp', ip'), w'))"
proof (induction ps arbitrary: tps tp ip w)
  case Nil
  then show ?case by simp
next
  case (Cons p ps)
  from Cons.prems obtain t ts where t: "as_GeminiPart p = Some t"
    and ts: "sequence (map as_GeminiPart ps) = Some ts" and tps: "tps = t # ts"
    by (auto split: option.splits)
  note pp = as_GeminiPart_props [OF t]
  let ?tp = "case GeminiPart.text t of Some s \<Rightarrow> if s \<noteq> [] then tp @ [s] else tp | None \<Rightarrow> tp"
  have tpj: "(case get_prop p ''text'' of
                Some v \<Rightarrow> if js_truthy (Some v) then map JStr tp @ [v] else map JStr tp
              | None \<Rightarrow> map JStr tp) = map JStr ?tp"
    by (simp add: pp(2) split: option.splits)
  show ?case
  proof (cases "inlineData t")
    case None
    with pp tpj Cons.IH [OF ts, of ?tp ip w] show ?thesis
      by (simp add: tps read_prop_Some Let_def)
  next
    case (Some d)
    show ?thesis
    proof (cases "data d = []")
      case True
      with Some pp tpj Cons.IH [OF ts, of ?tp ip w] show ?thesis
        by (simp add: tps read_prop_Some Let_def)
    next
      case False
      show ?thesis
      proof (cases "saveBase64Image P (data d) dir w")
        case (Pair x w1)
        show ?thesis
        proof (cases x)
          case (Inl e)
          with Pair False Some pp tpj show ?thesis
            by (simp add: tps read_prop_Some Let_def saveBase64Image_json_string)
        next
          case (Inr path)
          with Pair False Some pp tpj Cons.IH [OF ts, of ?tp "Some path" w1] show ?thesis
            by (simp add: tps read_prop_Some Let_def saveBase64Image_json_string)
        qed
      qed
    qed
  qed
qed

lemma as_GeminiCandidate_parts:
  assumes "as_GeminiCandidate c = Some tc"
  shows "\<exists>ps. first_parts_json (Some (JArr (c # cs))) = Inr (Some (JArr ps)) \<and>
           sequence (map as_GeminiPart ps) = Some (GeminiContent.parts (GeminiCandidate.content tc))"
  using assms
  by (auto simp: as_GeminiCandidate_def first_parts_json_def index0_def read_prop_def
      split: json.splits option.splits prod.splits)

lemma as_GeminiErrorInfo_api_error:
  assumes "as_GeminiErrorInfo ev = Some e"
  shows "js_truthy (Some ev)"
    and "api_error P ev =
           GeminiApiError (case code e of None \<Rightarrow> 500 | Some c \<Rightarrow> if c = 0 then 500 else c)
             (GeminiErrorInfo.message e)"
  using assms
  by (auto simp: as_GeminiErrorInfo_def api_error_def optional_def as_number_def
      split: json.splits option.splits prod.splits)

text \<open>
  On a response that conforms to the interface, the extraction is the function of the
  first part of this development.
\<close>

lemma extractResult_json_conforming:
  assumes "as_GeminiResponse j = Some r"
  shows "extractResult_json P j dir w = extractResult P r dir w"
proof -
  from assms obtain ms where j: "j = JObj ms"
    by (auto simp: as_GeminiResponse_def split: json.splits)
  from assms j have cs: "optional as_candidates (get_prop j ''candidates'') = Some (candidates r)"
    and er: "optional as_GeminiErrorInfo (get_prop j ''error'') = Some (error r)"
    by (auto simp: as_GeminiResponse_def split: option.splits prod.splits)
  have rp: "read_prop (Some j) ''candidates'' = Inr (get_prop j ''candidates'')"
    using j by (simp add: read_prop_def)
  have empty: "extractResult_json P j dir w = extractResult P r dir w"
    if nc: "no_candidates (get_prop j ''candidates'')"
      and tc: "(case candidates r of None \<Rightarrow> [] | Some cs \<Rightarrow> cs) = []"
  proof (cases "get_prop j ''error''")
    case None
    with er have "error r = None" by (simp add: optional_def)
    with None nc tc rp show ?thesis
      by (simp add: extractResult_json_def extractResult_def)
  next
    case (Some ev)
    with er obtain e where e: "as_GeminiErrorInfo ev = Some e" "error r = Some e"
      by (cases "error r") (auto simp: optional_def)
    from as_GeminiErrorInfo_api_error [OF e(1)] Some nc tc rp e(2) show ?thesis
      by (simp add: extractResult_json_def extractResult_def)
  qed
  show ?thesis
  proof (cases "get_prop j ''candidates''")
    case None
    with cs have "candidates r = None" by (simp add: optional_def)
    with None empty show ?thesis by (simp add: no_candidates_def)
  next
    case (Some cv)
    with cs obtain tcs where tcs: "as_candidates cv = Some tcs" "candidates r = Some tcs"
      by (cases "candidates r") (auto simp: optional_def)
    then obtain cl where cl: "cv = JArr cl" "sequence (map as_GeminiCandidate cl) = Some tcs"
      by (auto simp: as_candidates_def split: json.splits)
    show ?thesis
    proof (cases cl)
      case Nil
      with cl tcs Some empty show ?thesis by (simp add: no_candidates_def)
    next
      case (Cons c rest)
      with cl obtain tc trest where tc: "as_GeminiCandidate c = Some tc" "tcs = tc # trest"
        by (auto split: option.splits)
      from as_GeminiCandidate_parts [OF tc(1), of rest] obtain ps where
        fp: "first_parts_json (Some (JArr (c # rest))) = Inr (Some (JArr ps))" and
        sq: "sequence (map as_GeminiPart ps) = Some (GeminiContent.parts (GeminiCandidate.content tc))"
        by blast
      note L = extract_parts_json_conforming [OF sq, of P dir "[]" None w, simplified]
      have nc: "\<not> no_candidates (Some (JArr (c # rest)))"
        by (simp add: no_candidates_def)
      show ?thesis
      proof (cases "extract_parts P dir (GeminiContent.parts (GeminiCandidate.content tc)) [] None w")
        case (Pair x w')
        show ?thesis
        proof (cases x)
          case (Inl e)
          with Pair L rp Some cl Cons nc fp tcs tc show ?thesis
            by (simp add: extractResult_json_def extractResult_def iterate_def)
        next
          case (Inr y)
          obtain tp ip where y: "y = (tp, ip)" by (cases y)
          with Inr Pair L rp Some cl Cons nc fp tcs tc show ?thesis
            by (simp add: extractResult_json_def extractResult_def iterate_def sequence_strings_json
                del: map_map)
        qed
      qed
    qed
  qed
qed

lemma image_values_chars: "image_values (map (\<lambda>c. JStr [c]) s) = []"
  by (induction s) (simp_all add: image_values_Cons inline_data_def)

lemma iterate_Inr:
  "iterate v = Inr ps \<Longrightarrow> v = Some (JArr ps) \<or> (\<exists>s. v = Some (JStr s) \<and> ps = map (\<lambda>c. JStr [c]) s)"
  by (auto simp: iterate_def split: option.splits json.splits)


lemma image_tail_json:
  assumes ex: "extractResult_json P j dir w1 = (Inr res, w2)" and tr: "truthy (imagePath res)"
  shows "image_values (visited_parts j) \<noteq> []"
    and "first_image_data j = Inr (Some (hd (image_values (visited_parts j))))"
    and "json_of_text (imagePath res) =
           JStr (saved_path P dir w1 (length (image_values (visited_parts j)) - 1))"
    and "json_of_text (ExtractedResult.text res) = description_of P (visited_parts j)"
    and "map_option Inr (files w2 (saved_path P dir w1 (length (image_values (visited_parts j)) - 1))) =
           Some (payload_bytes P (last (image_values (visited_parts j))))"
proof -
  from ex obtain c where c: "read_prop (Some j) ''candidates'' = Inr c"
    by (cases "read_prop (Some j) ''candidates''") (auto simp: extractResult_json_def)
  have nc: "\<not> no_candidates c"
  proof
    assume "no_candidates c"
    with ex c have "imagePath res = None"
      by (auto simp: extractResult_json_def split: option.splits if_splits)
    with tr show False by simp
  qed
  from ex c nc obtain parts0 where p0: "first_parts_json c = Inr parts0"
    by (cases "first_parts_json c") (auto simp: extractResult_json_def)
  from ex c nc p0 obtain ps where it: "iterate parts0 = Inr ps"
    by (cases "iterate parts0") (auto simp: extractResult_json_def)
  from ex c nc p0 it obtain tp ip where
    ep: "extract_parts_json P dir ps [] None w1 = (Inr (tp, ip), w2)" and
    ip: "imagePath res = ip" and
    tx: "ExtractedResult.text res =
           (if tp \<noteq> [] then map_option (join_with [CHR 0x0A]) (sequence (map (js_to_string P) tp)) else None)" and
    sq: "tp \<noteq> [] \<longrightarrow> sequence (map (js_to_string P) tp) \<noteq> None"
    by (auto simp: extractResult_json_def split: prod.splits sum.splits option.splits if_splits)
  note E = extract_parts_json_Inr [OF ep]
  have vp: "visited_parts j = ps"
    using c nc p0 it by (simp add: visited_parts_def)
  from E ip tr have ne: "image_values ps \<noteq> []"
    by (auto split: if_splits)
  with iterate_Inr [OF it] have arr: "parts0 = Some (JArr ps)"
    by (auto simp: image_values_chars)
  from E have nn: "JNull \<notin> set ps" by simp
  from find_image_first [OF nn ne] obtain p where
    p: "find_image ps = Inr (Some p)" "p \<noteq> JNull" "inline_data p = Some (hd (image_values ps))"
    by blast
  show "image_values (visited_parts j) \<noteq> []" using ne vp by simp
  show "first_image_data j = Inr (Some (hd (image_values (visited_parts j))))"
    using c p0 arr p inline_data_read [OF p(2) p(3)] vp
    by (simp add: first_image_data_def)
  show "json_of_text (imagePath res) =
          JStr (saved_path P dir w1 (length (image_values (visited_parts j)) - 1))"
    using E ip ne vp by (simp add: json_of_text_def)
  show "json_of_text (ExtractedResult.text res) = description_of P (visited_parts j)"
    using E tx sq vp by (auto simp: json_of_text_def description_of_def split: option.splits)
  show "map_option Inr (files w2 (saved_path P dir w1 (length (image_values (visited_parts j)) - 1))) =
          Some (payload_bytes P (last (image_values (visited_parts j))))"
    using E ne vp by auto
qed

section \<open>Properties of the handlers\<close>

lemma hd_last_single: "length vs = 1 \<Longrightarrow> hd vs = last vs"
  by (cases vs) simp_all

lemma generate_image_success:
  assumes "generateContent P (generate_options a) w = (Inr j, w1)"
    and "generate_image P a w = (Inr env, w')" and "\<not> isError env"
  shows "(let vs = image_values (visited_parts j);
              path = saved_path P (generate_args.output_dir a) w1 (length vs - 1)
          in vs \<noteq> [] \<and>
             env = \<lparr>isError = False,
                    content = [ImageItem (Some (hd vs)) ''image/png'',
                               TextItem (stringify P
                                 (JObj [(''saved_to'', JStr path),
                                        (''model'', JStr (choice_name (generate_args.model a))),
                                        (''aspect_ratio'', JStr (generate_args.aspect_ratio a)),
                                        (''image_size'', JStr (generate_args.image_size a)),
                                        (''description'', description_of P (visited_parts j))]) 2)]\<rparr> \<and>
             map_option Inr (files w' path) = Some (payload_bytes P (last vs)))"
proof (cases "extractResult_json P j (generate_args.output_dir a) w1")
  case (Pair x w2)
  show ?thesis
  proof (cases x)
    case (Inl e)
    with Pair assms show ?thesis
      by (auto simp: generate_image_def generate_image_try_def toolError_def)
  next
    case (Inr res)
    with Pair have ex: "extractResult_json P j (generate_args.output_dir a) w1 = (Inr res, w2)" by simp
    show ?thesis
    proof (cases "truthy (imagePath res)")
      case False
      with ex assms show ?thesis
        by (auto simp: generate_image_def generate_image_try_def toolError_def)
    next
      case True
      note T = image_tail_json [OF ex True]
      from ex assms True T show ?thesis
        by (auto simp: generate_image_def generate_image_try_def toolResultWithImage_def Let_def)
    qed
  qed
qed

lemma edit_image_success:
  assumes "readImageAsBase64 P (edit_args.image_path a) w = (Inr img, w0)"
    and "generateContent P (edit_options a img) w0 = (Inr j, w1)"
    and "edit_image P a w = (Inr env, w')" and "\<not> isError env"
  shows "(let vs = image_values (visited_parts j);
              path = saved_path P (edit_args.output_dir a) w1 (length vs - 1)
          in vs \<noteq> [] \<and>
             env = \<lparr>isError = False,
                    content = [ImageItem (Some (hd vs)) ''image/png'',
                               TextItem (stringify P
                                 (JObj [(''saved_to'', JStr path),
                                        (''source'', JStr (edit_args.image_path a)),
                                        (''instruction'', JStr (edit_args.instruction a)),
                                        (''model'', JStr (choice_name (edit_args.model a))),
                                        (''description'', description_of P (visited_parts j))]) 2)]\<rparr> \<and>
             map_option Inr (files w' path) = Some (payload_bytes P (last vs)))"
proof (cases "extractResult_json P j (edit_args.output_dir a) w1")
  case (Pair x w2)
  show ?thesis
  proof (cases x)
    case (Inl e)
    with Pair assms show ?thesis
      by (auto simp: edit_image_def edit_image_try_def toolError_def)
  next
    case (Inr res)
    with Pair have ex: "extractResult_json P j (edit_args.output_dir a) w1 = (Inr res, w2)" by simp
    show ?thesis
    proof (cases "truthy (imagePath res)")
      case False
      with ex assms show ?thesis
        by (auto simp: edit_image_def edit_image_try_def toolError_def)
    next
      case True
      note T = image_tail_json [OF ex True]
      from ex assms True T show ?thesis
        by (auto simp: edit_image_def edit_image_try_def toolResultWithImage_def Let_def)
    qed
  qed
qed

lemma compose_images_success:
  assumes "read_images P (image_paths a) w = (Inr ps, w0)"
    and "generateContent P (compose_options a ps) w0 = (Inr j, w1)"
    and "compose_images P a w = (Inr env, w')" and "\<not> isError env"
  shows "(let vs = image_values (visited_parts j);
              path = saved_path P (compose_args.output_dir a) w1 (length vs - 1)
          in vs \<noteq> [] \<and>
             env = \<lparr>isError = False,
                    content = [ImageItem (Some (hd vs)) ''image/png'',
                               TextItem (stringify P
                                 (JObj [(''saved_to'', JStr path),
                                        (''sources'', JArr (map JStr (image_paths a))),
                                        (''instruction'', JStr (compose_args.instruction a)),
                                        (''model'', JStr (choice_name (compose_args.model a))),
                                        (''description'', description_of P (visited_parts j))]) 2)]\<rparr> \<and>
             map_option Inr (files w' path) = Some (payload_bytes P (last vs)))"
proof (cases "extractResult_json P j (compose_args.output_dir a) w1")
  case (Pair x w2)
  show ?thesis
  proof (cases x)
    case (Inl e)
    with Pair assms show ?thesis
      by (auto simp: compose_images_def compose_images_try_def toolError_def)
  next
    case (Inr res)
    with Pair have ex: "extractResult_json P j (compose_args.output_dir a) w1 = (Inr res, w2)" by simp
    show ?thesis
    proof (cases "truthy (imagePath res)")
      case False
      with ex assms show ?thesis
        by (auto simp: compose_images_def compose_images_try_def toolError_def)
    next
      case True
      note T = image_tail_json [OF ex True]
      from ex assms True T show ?thesis
        by (auto simp: compose_images_def compose_images_try_def toolResultWithImage_def Let_def)
    qed
  qed
qed

lemma generate_image_catch:
  "(\<exists>env w'. generate_image P a w = (Inr env, w')) \<and>
   (\<forall>e w'. generate_image_try P a w = (Inl e, w') \<longrightarrow>
      generate_image P a w =
        (Inr \<lparr>isError = True, content = [TextItem (''Failed to generate image: '' @ message e)]\<rparr>, w')) \<and>
   (\<forall>e w1. generateContent P (generate_options a) w = (Inl e, w1) \<longrightarrow>
      generate_image P a w =
        (Inr \<lparr>isError = True, content = [TextItem (''Failed to generate image: '' @ message e)]\<rparr>, w1)) \<and>
   (\<forall>j w1 e w2. generateContent P (generate_options a) w = (Inr j, w1) \<and>
      extractResult_json P j (generate_args.output_dir a) w1 = (Inl e, w2) \<longrightarrow>
      generate_image P a w =
        (Inr \<lparr>isError = True, content = [TextItem (''Failed to generate image: '' @ message e)]\<rparr>, w2))"
  by (auto simp: generate_image_def generate_image_try_def toolError_def split: prod.splits sum.splits)

lemma edit_image_catch:
  "(\<exists>env w'. edit_image P a w = (Inr env, w')) \<and>
   (\<forall>e w'. edit_image_try P a w = (Inl e, w') \<longrightarrow>
      edit_image P a w =
        (Inr \<lparr>isError = True, content = [TextItem (''Failed to edit image: '' @ message e)]\<rparr>, w')) \<and>
   (\<forall>e w0. readImageAsBase64 P (edit_args.image_path a) w = (Inl e, w0) \<longrightarrow>
      edit_image P a w =
        (Inr \<lparr>isError = True, content = [TextItem (''Failed to edit image: '' @ message e)]\<rparr>, w0)) \<and>
   (\<forall>img w0 e w1. readImageAsBase64 P (edit_args.image_path a) w = (Inr img, w0) \<and>
      generateContent P (edit_options a img) w0 = (Inl e, w1) \<longrightarrow>
      edit_image P a w =
        (Inr \<lparr>isError = True, content = [TextItem (''Failed to edit image: '' @ message e)]\<rparr>, w1)) \<and>
   (\<forall>img w0 j w1 e w2. readImageAsBase64 P (edit_args.image_path a) w = (Inr img, w0) \<and>
      generateContent P (edit_options a img) w0 = (Inr j, w1) \<and>
      extractResult_json P j (edit_args.output_dir a) w1 = (Inl e, w2) \<longrightarrow>
      edit_image P a w =
        (Inr \<lparr>isError = True, content = [TextItem (''Failed to edit image: '' @ message e)]\<rparr>, w2))"
  by (auto simp: edit_image_def edit_image_try_def toolError_def split: prod.splits sum.splits)

lemma compose_images_catch:
  "(\<exists>env w'. compose_images P a w = (Inr env, w')) \<and>
   (\<forall>e w'. compose_images_try P a w = (Inl e, w') \<longrightarrow>
      compose_images P a w =
        (Inr \<lparr>isError = True, content = [TextItem (''Failed to compose images: '' @ message e)]\<rparr>, w')) \<and>
   (\<forall>e w0. read_images P (image_paths a) w = (Inl e, w0) \<longrightarrow>
      compose_images P a w =
        (Inr \<lparr>isError = True, content = [TextItem (''Failed to compose images: '' @ message e)]\<rparr>, w0)) \<and>
   (\<forall>ps w0 e w1. read_images P (image_paths a) w = (Inr ps, w0) \<and>
      generateContent P (compose_options a ps) w0 = (Inl e, w1) \<longrightarrow>
      compose_images P a w =
        (Inr \<lparr>isError = True, content = [TextItem (''Failed to compose images: '' @ message e)]\<rparr>, w1)) \<and>
   (\<forall>ps w0 j w1 e w2. read_images P (image_paths a) w = (Inr ps, w0) \<and>
      generateContent P (compose_options a ps) w0 = (Inr j, w1) \<and>
      extractResult_json P j (compose_args.output_dir a) w1 = (Inl e, w2) \<longrightarrow>
      compose_images P a w =
        (Inr \<lparr>isError = True, content = [TextItem (''Failed to compose images: '' @ message e)]\<rparr>, w2))"
  by (auto simp: compose_images_def compose_images_try_def toolError_def split: prod.splits sum.splits)

lemma describe_image_catch:
  "(\<exists>env w'. describe_image P a w = (Inr env, w')) \<and>
   (\<forall>e w'. describe_image_try P a w = (Inl e, w') \<longrightarrow>
      describe_image P a w =
        (Inr \<lparr>isError = True, content = [TextItem (''Failed to describe image: '' @ message e)]\<rparr>, w')) \<and>
   (\<forall>e w0. readImageAsBase64 P (describe_args.image_path a) w = (Inl e, w0) \<longrightarrow>
      describe_image P a w =
        (Inr \<lparr>isError = True, content = [TextItem (''Failed to describe image: '' @ message e)]\<rparr>, w0)) \<and>
   (\<forall>img w0 e w1. readImageAsBase64 P (describe_args.image_path a) w = (Inr img, w0) \<and>
      generateContent P (describe_options a img) w0 = (Inl e, w1) \<longrightarrow>
      describe_image P a w =
        (Inr \<lparr>isError = True, content = [TextItem (''Failed to describe image: '' @ message e)]\<rparr>, w1)) \<and>
   (\<forall>img w0 j w1 c e. readImageAsBase64 P (describe_args.image_path a) w = (Inr img, w0) \<and>
      generateContent P (describe_options a img) w0 = (Inr j, w1) \<and>
      read_prop (Some j) ''candidates'' = Inr c \<and> \<not> no_candidates c \<and>
      first_parts_json c = Inl e \<longrightarrow>
      describe_image P a w =
        (Inr \<lparr>isError = True, content = [TextItem (''Failed to describe image: '' @ message e)]\<rparr>, w1))"
  by (auto simp: describe_image_def describe_image_try_def toolError_def split: prod.splits sum.splits)

lemmas posix_eval =
  posix_fields posix_join_def posix_normalize_def normalize_step_def posix_extname_def
  base64_alphabet_def base64_decode_def base64_value_def

lemmas handler_eval =
  generateContent_def fetch_def ok_def extractResult_json_def read_prop_def no_candidates_def
  index0_def first_parts_json_def iterate_def inline_data_def saveBase64Image_json_eq
  payload_bytes_def saved_path_def image_filename_def first_image_data_def json_of_text_def
  description_text_def readImageAsBase64_def readFileSync_def Let_def mimeMap_def toLowerCase_def
  lower_char_def derive_msg_def api_error_def

lemmas body_defs = body_of_def part_json_def safety_body_def blocked_body_def

text \<open>
  C4. Each handler returns an envelope, whatever happens; an exception thrown inside its
  \<^verbatim>\<open>try\<close> block (while the images are read, by the endpoint call, by the extraction or
  by a read of the response) becomes the envelope with \<open>isError\<close> true and a single text
  item, the exception's message after the prefix naming the operation.
\<close>

theorem handlers_catch:
  "((\<exists>env w'. generate_image P ga w = (Inr env, w')) \<and>
    (\<forall>e w'. generate_image_try P ga w = (Inl e, w') \<longrightarrow>
       generate_image P ga w =
         (Inr \<lparr>isError = True, content = [TextItem (''Failed to generate image: '' @ message e)]\<rparr>, w')) \<and>
    (\<forall>e w1. generateContent P (generate_options ga) w = (Inl e, w1) \<longrightarrow>
       generate_image P ga w =
         (Inr \<lparr>isError = True, content = [TextItem (''Failed to generate image: '' @ message e)]\<rparr>, w1)) \<and>
    (\<forall>j w1 e w2. generateContent P (generate_options ga) w = (Inr j, w1) \<and>
       extractResult_json P j (generate_args.output_dir ga) w1 = (Inl e, w2) \<longrightarrow>
       generate_image P ga w =
         (Inr \<lparr>isError = True, content = [TextItem (''Failed to generate image: '' @ message e)]\<rparr>, w2))) \<and>
   ((\<exists>env w'. edit_image P ea w = (Inr env, w')) \<and>
    (\<forall>e w'. edit_image_try P ea w = (Inl e, w') \<longrightarrow>
       edit_image P ea w =
         (Inr \<lparr>isError = True, content = [TextItem (''Failed to edit image: '' @ message e)]\<rparr>, w')) \<and>
    (\<forall>e w0. readImageAsBase64 P (edit_args.image_path ea) w = (Inl e, w0) \<longrightarrow>
       edit_image P ea w =
         (Inr \<lparr>isError = True, content = [TextItem (''Failed to edit image: '' @ message e)]\<rparr>, w0)) \<and>
    (\<forall>img w0 e w1. readImageAsBase64 P (edit_args.image_path ea) w = (Inr img, w0) \<and>
       generateContent P (edit_options ea img) w0 = (Inl e, w1) \<longrightarrow>
       edit_image P ea w =
         (Inr \<lparr>isError = True, content = [TextItem (''Failed to edit image: '' @ message e)]\<rparr>, w1)) \<and>
    (\<forall>img w0 j w1 e w2. readImageAsBase64 P (edit_args.image_path ea) w = (Inr img, w0) \<and>
       generateContent P (edit_options ea img) w0 = (Inr j, w1) \<and>
       extractResult_json P j (edit_args.output_dir ea) w1 = (Inl e, w2) \<longrightarrow>
       edit_image P ea w =
         (Inr \<lparr>isError = True, content = [TextItem (''Failed to edit image: '' @ message e)]\<rparr>, w2))) \<and>
   ((\<exists>env w'. compose_images P ca w = (Inr env, w')) \<and>
    (\<forall>e w'. compose_images_try P ca w = (Inl e, w') \<longrightarrow>
       compose_images P ca w =
         (Inr \<lparr>isError = True, content = [TextItem (''Failed to compose images: '' @ message e)]\<rparr>, w')) \<and>
    (\<forall>e w0. read_images P (image_paths ca) w = (Inl e, w0) \<longrightarrow>
       compose_images P ca w =
         (Inr \<lparr>isError = True, content = [TextItem (''Failed to compose images: '' @ message e)]\<rparr>, w0)) \<and>
    (\<forall>ps w0 e w1. read_images P (image_paths ca) w = (Inr ps, w0) \<and>
       generateContent P (compose_options ca ps) w0 = (Inl e, w1) \<longrightarrow>
       compose_images P ca w =
         (Inr \<lparr>isError = True, content = [TextItem (''Failed to compose images: '' @ message e)]\<rparr>, w1)) \<and>
    (\<forall>ps w0 j w1 e w2. read_images P (image_paths ca) w = (Inr ps, w0) \<and>
       generateContent P (compose_options ca ps) w0 = (Inr j, w1) \<and>
       extractResult_json P j (compose_args.output_dir ca) w1 = (Inl e, w2) \<longrightarrow>
       compose_images P ca w =
         (Inr \<lparr>isError = True, content = [TextItem (''Failed to compose images: '' @ message e)]\<rparr>, w2))) \<and>
   ((\<exists>env w'. describe_image P da w = (Inr env, w')) \<and>
    (\<forall>e w'. describe_image_try P da w = (Inl e, w') \<longrightarrow>
       describe_image P da w =
         (Inr \<lparr>isError = True, content = [TextItem (''Failed to describe image: '' @ message e)]\<rparr>, w')) \<and>
    (\<forall>e w0. readImageAsBase64 P (describe_args.image_path da) w = (Inl e, w0) \<longrightarrow>
       describe_image P da w =
         (Inr \<lparr>isError = True, content = [TextItem (''Failed to describe image: '' @ message e)]\<rparr>, w0)) \<and>
    (\<forall>img w0 e w1. readImageAsBase64 P (describe_args.image_path da) w = (Inr img, w0) \<and>
       generateContent P (describe_options da img) w0 = (Inl e, w1) \<longrightarrow>
       describe_image P da w =
         (Inr \<lparr>isError = True, content = [TextItem (''Failed to describe image: '' @ message e)]\<rparr>, w1)) \<and>
    (\<forall>img w0 j w1 c e. readImageAsBase64 P (describe_args.image_path da) w = (Inr img, w0) \<and>
       generateContent P (describe_options da img) w0 = (Inr j, w1) \<and>
       read_prop (Some j) ''candidates'' = Inr c \<and> \<not> no_candidates c \<and>
       first_parts_json c = Inl e \<longrightarrow>
       describe_image P da w =
         (Inr \<lparr>isError = True, content = [TextItem (''Failed to describe image: '' @ message e)]\<rparr>, w1)))"
  by (rule conjI [OF generate_image_catch conjI [OF edit_image_catch
        conjI [OF compose_images_catch describe_image_catch]]])

theorem handlers_catch_witness:
  "fst (generate_image posix sample_generate_args (sample_world (Rejected ''fetch failed''))) =
     Inr \<lparr>isError = True, content = [TextItem ''Failed to generate image: fetch failed'']\<rparr> \<and>
   fst (edit_image posix (sample_edit_args ''/in/none.png'') (sample_world (Rejected ''fetch failed''))) =
     Inr \<lparr>isError = True,
          content = [TextItem (''Failed to edit image: ENOENT: no such file or directory, open '' @
                                 [CHR 0x27] @ ''/in/none.png'' @ [CHR 0x27])]\<rparr> \<and>
   fst (compose_images posix (sample_compose_args ''/ro/out'')
          (sample_world (answer_ok (body_of [image_part ''QQ=='']))))  =
     Inr \<lparr>isError = True, content = [TextItem ''Failed to compose images: EACCES: permission denied'']\<rparr> \<and>
   fst (describe_image posix sample_describe_args
          (sample_world (answer_failure 500 ''Internal Server Error'' None))) =
     Inr \<lparr>isError = True,
          content = [TextItem ''Failed to describe image: Gemini API error (500): Internal Server Error'']\<rparr> \<and>
   fst (edit_image posix (sample_edit_args ''/in/cat.jpg'') (sample_world (answer_ok safety_body))) =
     Inr \<lparr>isError = True,
          content = [TextItem ''Failed to edit image: Cannot read properties of undefined (reading 'parts')'']\<rparr>"
  using handlers_catch [of posix sample_generate_args "sample_world (Rejected ''fetch failed'')"]
  by (simp add: generate_image_def generate_image_try_def generate_options_def sample_generate_args_def
      edit_image_def edit_image_try_def edit_options_def sample_edit_args_def
      compose_images_def compose_images_try_def compose_options_def sample_compose_args_def
      describe_image_def describe_image_try_def describe_options_def sample_describe_args_def
      handler_eval posix_eval world_simps sample_defs body_defs show_nat_values answer_failure_def
      toolError_def)






lemma saved_consequences:
  "map_option Inr saved = Some (payload_bytes P (last vs)) \<Longrightarrow>
     (length vs = 1 \<longrightarrow> map_option Inr saved = Some (payload_bytes P (hd vs))) \<and>
     (payload_bytes P (hd vs) \<noteq> payload_bytes P (last vs) \<longrightarrow>
        map_option Inr saved \<noteq> Some (payload_bytes P (hd vs)))"
  by (auto simp: hd_last_single)

text \<open>
  C9 (amended). A successful \<^verbatim>\<open>generate_image\<close>, \<^verbatim>\<open>edit_image\<close> or \<^verbatim>\<open>compose_images\<close>
  returns the envelope without error whose items are the image, carrying the first truthy
  inline payload of the parts of the first candidate, and the metadata, which reports under
  \<^verbatim>\<open>saved_to\<close> the file that holds the decoded last such payload. The image saved is the
  image returned when there is one such payload, and differs from it when the first and the
  last payload decode differently.
\<close>

theorem inline_first_saved_last:
  "(\<forall>j w1 env w'.
      generateContent P (generate_options ga) w = (Inr j, w1) \<and>
      generate_image P ga w = (Inr env, w') \<and> \<not> isError env \<longrightarrow>
      (let vs = image_values (visited_parts j);
           path = saved_path P (generate_args.output_dir ga) w1 (length vs - 1)
       in vs \<noteq> [] \<and>
          env = \<lparr>isError = False,
                 content = [ImageItem (Some (hd vs)) ''image/png'',
                            TextItem (stringify P
                              (JObj [(''saved_to'', JStr path),
                                     (''model'', JStr (choice_name (generate_args.model ga))),
                                     (''aspect_ratio'', JStr (generate_args.aspect_ratio ga)),
                                     (''image_size'', JStr (generate_args.image_size ga)),
                                     (''description'', description_of P (visited_parts j))]) 2)]\<rparr> \<and>
          map_option Inr (files w' path) = Some (payload_bytes P (last vs)) \<and>
          (length vs = 1 \<longrightarrow> map_option Inr (files w' path) = Some (payload_bytes P (hd vs))) \<and>
          (payload_bytes P (hd vs) \<noteq> payload_bytes P (last vs) \<longrightarrow>
             map_option Inr (files w' path) \<noteq> Some (payload_bytes P (hd vs))))) \<and>
   (\<forall>img w0 j w1 env w'.
      readImageAsBase64 P (edit_args.image_path ea) w = (Inr img, w0) \<and>
      generateContent P (edit_options ea img) w0 = (Inr j, w1) \<and>
      edit_image P ea w = (Inr env, w') \<and> \<not> isError env \<longrightarrow>
      (let vs = image_values (visited_parts j);
           path = saved_path P (edit_args.output_dir ea) w1 (length vs - 1)
       in vs \<noteq> [] \<and>
          env = \<lparr>isError = False,
                 content = [ImageItem (Some (hd vs)) ''image/png'',
                            TextItem (stringify P
                              (JObj [(''saved_to'', JStr path),
                                     (''source'', JStr (edit_args.image_path ea)),
                                     (''instruction'', JStr (edit_args.instruction ea)),
                                     (''model'', JStr (choice_name (edit_args.model ea))),
                                     (''description'', description_of P (visited_parts j))]) 2)]\<rparr> \<and>
          map_option Inr (files w' path) = Some (payload_bytes P (last vs)) \<and>
          (length vs = 1 \<longrightarrow> map_option Inr (files w' path) = Some (payload_bytes P (hd vs))) \<and>
          (payload_bytes P (hd vs) \<noteq> payload_bytes P (last vs) \<longrightarrow>
             map_option Inr (files w' path) \<noteq> Some (payload_bytes P (hd vs))))) \<and>
   (\<forall>ps w0 j w1 env w'.
      read_images P (image_paths ca) w = (Inr ps, w0) \<and>
      generateContent P (compose_options ca ps) w0 = (Inr j, w1) \<and>
      compose_images P ca w = (Inr env, w') \<and> \<not> isError env \<longrightarrow>
      (let vs = image_values (visited_parts j);
           path = saved_path P (compose_args.output_dir ca) w1 (length vs - 1)
       in vs \<noteq> [] \<and>
          env = \<lparr>isError = False,
                 content = [ImageItem (Some (hd vs)) ''image/png'',
                            TextItem (stringify P
                              (JObj [(''saved_to'', JStr path),
                                     (''sources'', JArr (map JStr (image_paths ca))),
                                     (''instruction'', JStr (compose_args.instruction ca)),
                                     (''model'', JStr (choice_name (compose_args.model ca))),
                                     (''description'', description_of P (visited_parts j))]) 2)]\<rparr> \<and>
          map_option Inr (files w' path) = Some (payload_bytes P (last vs)) \<and>
          (length vs = 1 \<longrightarrow> map_option Inr (files w' path) = Some (payload_bytes P (hd vs))) \<and>
          (payload_bytes P (hd vs) \<noteq> payload_bytes P (last vs) \<longrightarrow>
             map_option Inr (files w' path) \<noteq> Some (payload_bytes P (hd vs)))))"
proof (intro conjI allI impI)
  fix j w1 env w'
  assume "generateContent P (generate_options ga) w = (Inr j, w1) \<and>
      generate_image P ga w = (Inr env, w') \<and> \<not> isError env"
  then have s: "let vs = image_values (visited_parts j);
              path = saved_path P (generate_args.output_dir ga) w1 (length vs - 1)
          in vs \<noteq> [] \<and>
             env = \<lparr>isError = False,
                    content = [ImageItem (Some (hd vs)) ''image/png'',
                               TextItem (stringify P
                                 (JObj [(''saved_to'', JStr path),
                                        (''model'', JStr (choice_name (generate_args.model ga))),
                                        (''aspect_ratio'', JStr (generate_args.aspect_ratio ga)),
                                        (''image_size'', JStr (generate_args.image_size ga)),
                                        (''description'', description_of P (visited_parts j))]) 2)]\<rparr> \<and>
             map_option Inr (files w' path) = Some (payload_bytes P (last vs))"
    using generate_image_success [of P ga w j w1 env w'] by blast
  then show "let vs = image_values (visited_parts j);
           path = saved_path P (generate_args.output_dir ga) w1 (length vs - 1)
       in vs \<noteq> [] \<and>
          env = \<lparr>isError = False,
                 content = [ImageItem (Some (hd vs)) ''image/png'',
                            TextItem (stringify P
                              (JObj [(''saved_to'', JStr path),
                                     (''model'', JStr (choice_name (generate_args.model ga))),
                                     (''aspect_ratio'', JStr (generate_args.aspect_ratio ga)),
                                     (''image_size'', JStr (generate_args.image_size ga)),
                                     (''description'', description_of P (visited_parts j))]) 2)]\<rparr> \<and>
          map_option Inr (files w' path) = Some (payload_bytes P (last vs)) \<and>
          (length vs = 1 \<longrightarrow> map_option Inr (files w' path) = Some (payload_bytes P (hd vs))) \<and>
          (payload_bytes P (hd vs) \<noteq> payload_bytes P (last vs) \<longrightarrow>
             map_option Inr (files w' path) \<noteq> Some (payload_bytes P (hd vs)))"
    unfolding Let_def using saved_consequences by blast
next
  fix img w0 j w1 env w'
  assume "readImageAsBase64 P (edit_args.image_path ea) w = (Inr img, w0) \<and>
      generateContent P (edit_options ea img) w0 = (Inr j, w1) \<and>
      edit_image P ea w = (Inr env, w') \<and> \<not> isError env"
  then have s: "let vs = image_values (visited_parts j);
              path = saved_path P (edit_args.output_dir ea) w1 (length vs - 1)
          in vs \<noteq> [] \<and>
             env = \<lparr>isError = False,
                    content = [ImageItem (Some (hd vs)) ''image/png'',
                               TextItem (stringify P
                                 (JObj [(''saved_to'', JStr path),
                                        (''source'', JStr (edit_args.image_path ea)),
                                        (''instruction'', JStr (edit_args.instruction ea)),
                                        (''model'', JStr (choice_name (edit_args.model ea))),
                                        (''description'', description_of P (visited_parts j))]) 2)]\<rparr> \<and>
             map_option Inr (files w' path) = Some (payload_bytes P (last vs))"
    using edit_image_success [of P ea w img w0 j w1 env w'] by blast
  then show "let vs = image_values (visited_parts j);
           path = saved_path P (edit_args.output_dir ea) w1 (length vs - 1)
       in vs \<noteq> [] \<and>
          env = \<lparr>isError = False,
                 content = [ImageItem (Some (hd vs)) ''image/png'',
                            TextItem (stringify P
                              (JObj [(''saved_to'', JStr path),
                                     (''source'', JStr (edit_args.image_path ea)),
                                     (''instruction'', JStr (edit_args.instruction ea)),
                                     (''model'', JStr (choice_name (edit_args.model ea))),
                                     (''description'', description_of P (visited_parts j))]) 2)]\<rparr> \<and>
          map_option Inr (files w' path) = Some (payload_bytes P (last vs)) \<and>
          (length vs = 1 \<longrightarrow> map_option Inr (files w' path) = Some (payload_bytes P (hd vs))) \<and>
          (payload_bytes P (hd vs) \<noteq> payload_bytes P (last vs) \<longrightarrow>
             map_option Inr (files w' path) \<noteq> Some (payload_bytes P (hd vs)))"
    unfolding Let_def using saved_consequences by blast
next
  fix ps w0 j w1 env w'
  assume "read_images P (image_paths ca) w = (Inr ps, w0) \<and>
      generateContent P (compose_options ca ps) w0 = (Inr j, w1) \<and>
      compose_images P ca w = (Inr env, w') \<and> \<not> isError env"
  then have s: "let vs = image_values (visited_parts j);
              path = saved_path P (compose_args.output_dir ca) w1 (length vs - 1)
          in vs \<noteq> [] \<and>
             env = \<lparr>isError = False,
                    content = [ImageItem (Some (hd vs)) ''image/png'',
                               TextItem (stringify P
                                 (JObj [(''saved_to'', JStr path),
                                        (''sources'', JArr (map JStr (image_paths ca))),
                                        (''instruction'', JStr (compose_args.instruction ca)),
                                        (''model'', JStr (choice_name (compose_args.model ca))),
                                        (''description'', description_of P (visited_parts j))]) 2)]\<rparr> \<and>
             map_option Inr (files w' path) = Some (payload_bytes P (last vs))"
    using compose_images_success [of P ca w ps w0 j w1 env w'] by blast
  then show "let vs = image_values (visited_parts j);
           path = saved_path P (compose_args.output_dir ca) w1 (length vs - 1)
       in vs \<noteq> [] \<and>
          env = \<lparr>isError = False,
                 content = [ImageItem (Some (hd vs)) ''image/png'',
                            TextItem (stringify P
                              (JObj [(''saved_to'', JStr path),
                                     (''sources'', JArr (map JStr (image_paths ca))),
                                     (''instruction'', JStr (compose_args.instruction ca)),
                                     (''model'', JStr (choice_name (compose_args.model ca))),
                                     (''description'', description_of P (visited_parts j))]) 2)]\<rparr> \<and>
          map_option Inr (files w' path) = Some (payload_bytes P (last vs)) \<and>
          (length vs = 1 \<longrightarrow> map_option Inr (files w' path) = Some (payload_bytes P (hd vs))) \<and>
          (payload_bytes P (hd vs) \<noteq> payload_bytes P (last vs) \<longrightarrow>
             map_option Inr (files w' path) \<noteq> Some (payload_bytes P (hd vs)))"
    unfolding Let_def using saved_consequences by blast
qed

lemmas notion_eval = visited_parts_def image_values_def text_values_def description_of_def

theorem inline_first_saved_last_witness:
  "fst (generate_image posix sample_generate_args
          (sample_world (answer_ok (body_of [image_part ''QQ=='', text_part ''two'', image_part ''Qg=='']))))
     = Inr \<lparr>isError = False,
            content = [ImageItem (Some (JStr ''QQ=='')) ''image/png'',
                       TextItem (stringify posix
                         (JObj [(''saved_to'', JStr ''out/nano-banana-1700000000001.png''),
                                (''model'', JStr ''flash''),
                                (''aspect_ratio'', JStr ''1:1''),
                                (''image_size'', JStr ''1K''),
                                (''description'', JStr ''two'')]) 2)]\<rparr> \<and>
   files (snd (generate_image posix sample_generate_args
          (sample_world (answer_ok (body_of [image_part ''QQ=='', text_part ''two'', image_part ''Qg=='']))))) 
     ''out/nano-banana-1700000000001.png'' = Some [0x42] \<and>
   fromBase64 posix ''QQ=='' = [0x41]"
  using inline_first_saved_last [of posix sample_generate_args 
          "sample_world (answer_ok (body_of [image_part ''QQ=='', text_part ''two'', image_part ''Qg=='']))"]
  by (simp add: generate_image_def generate_image_try_def generate_options_def sample_generate_args_def
      handler_eval posix_eval world_simps sample_defs body_defs show_nat_values toolResultWithImage_def)

text \<open>
  Three image parts, the second unlike the others: the parts have differing payloads, and
  the image returned inline is the image saved.
\<close>

theorem inline_equals_saved_counterexample:
  "fst (generate_image posix sample_generate_args
          (sample_world (answer_ok (body_of [image_part ''QQ=='', image_part ''Qg=='', image_part ''QQ=='']))))
     = Inr \<lparr>isError = False,
            content = [ImageItem (Some (JStr ''QQ=='')) ''image/png'',
                       TextItem (stringify posix
                         (JObj [(''saved_to'', JStr ''out/nano-banana-1700000000002.png''),
                                (''model'', JStr ''flash''),
                                (''aspect_ratio'', JStr ''1:1''),
                                (''image_size'', JStr ''1K''),
                                (''description'', JNull)]) 2)]\<rparr> \<and>
   files (snd (generate_image posix sample_generate_args
          (sample_world (answer_ok (body_of [image_part ''QQ=='', image_part ''Qg=='', image_part ''QQ==''])))))
     ''out/nano-banana-1700000000002.png'' = Some (fromBase64 posix ''QQ=='') \<and>
   image_values (visited_parts (body_of [image_part ''QQ=='', image_part ''Qg=='', image_part ''QQ==''])) =
     [JStr ''QQ=='', JStr ''Qg=='', JStr ''QQ==''] \<and>
   ''QQ=='' \<noteq> ''Qg=='' \<and> fromBase64 posix ''QQ=='' \<noteq> fromBase64 posix ''Qg==''"
  by (simp add: generate_image_def generate_image_try_def generate_options_def sample_generate_args_def
      handler_eval posix_eval world_simps sample_defs body_defs show_nat_values toolResultWithImage_def
      notion_eval)





section \<open>Properties of the input validation\<close>

lemma sequence_length:
  "sequence xs = Some ys \<Longrightarrow> length ys = length xs"
  by (induction xs arbitrary: ys) (auto split: option.splits)

lemma sequence_strings:
  "sequence (map (\<lambda>x. z_string (Some x)) (map JStr paths)) = Some paths"
  by (induction paths) simp_all

lemma z_string_array_strings:
  "z_string_array lo hi (Some (JArr (map JStr paths))) =
     (if lo \<le> length paths \<and> length paths \<le> hi then Some paths else None)"
  by (simp add: z_string_array_def sequence_strings del: map_map)

lemma z_string_array_bounds:
  "z_string_array lo hi v = Some strs \<Longrightarrow> lo \<le> length strs \<and> length strs \<le> hi"
  by (auto simp: z_string_array_def split: option.splits json.splits if_splits)

lemma z_string_array_length:
  "z_string_array lo hi (Some (JArr xs)) = Some strs \<Longrightarrow> length strs = length xs"
  by (auto simp: z_string_array_def sequence_length split: option.splits if_splits)

lemma compose_schema_paths:
  "compose_schema raw = Some a \<Longrightarrow>
     z_string_array 1 14 (get_prop raw ''image_paths'') = Some (image_paths a)"
  by (auto simp: compose_schema_def split: json.splits option.splits prod.splits)

text \<open>
  C6. A call of \<^verbatim>\<open>compose_images\<close> whose \<^verbatim>\<open>image_paths\<close> is an array of no element, or of
  15 or more, is rejected with the world unchanged: no request is sent. Whatever the schema
  accepts has between 1 and 14 paths, and a call that gives from 1 to 14 paths, an
  instruction and either model is accepted.
\<close>

theorem compose_images_bounds:
  "(\<forall>xs. get_prop raw ''image_paths'' = Some (JArr xs) \<and> (length xs = 0 \<or> 15 \<le> length xs) \<longrightarrow>
      call_compose_images P raw w = (InvalidArguments, w)) \<and>
   (\<forall>a. compose_schema raw = Some a \<longrightarrow>
      1 \<le> length (image_paths a) \<and> length (image_paths a) \<le> 14) \<and>
   compose_schema
       (JObj [(''image_paths'', JArr (map JStr paths)), (''instruction'', JStr i),
              (''model'', JStr (choice_name m))]) =
     (if 1 \<le> length paths \<and> length paths \<le> 14 \<and> i \<noteq> []
      then Some \<lparr>image_paths = paths, instruction = i, model = m, aspect_ratio = ''1:1'',
                 image_size = ''1K'', output_dir = ''.''\<rparr>
      else None)"
proof (intro conjI allI impI)
  fix xs
  assume h: "get_prop raw ''image_paths'' = Some (JArr xs) \<and> (length xs = 0 \<or> 15 \<le> length xs)"
  have "compose_schema raw = None"
  proof (rule ccontr)
    assume "compose_schema raw \<noteq> None"
    then obtain a where a: "compose_schema raw = Some a" by blast
    from compose_schema_paths [OF a] h
    have z: "z_string_array 1 14 (Some (JArr xs)) = Some (image_paths a)" by simp
    from z_string_array_bounds [OF z] z_string_array_length [OF z] h show False by auto
  qed
  then show "call_compose_images P raw w = (InvalidArguments, w)"
    by (simp add: call_compose_images_def)
next
  fix a
  assume a: "compose_schema raw = Some a"
  from z_string_array_bounds [OF compose_schema_paths [OF a]]
  show "1 \<le> length (image_paths a)" and "length (image_paths a) \<le> 14" by simp_all
next
  show "compose_schema
       (JObj [(''image_paths'', JArr (map JStr paths)), (''instruction'', JStr i),
              (''model'', JStr (choice_name m))]) =
     (if 1 \<le> length paths \<and> length paths \<le> 14 \<and> i \<noteq> []
      then Some \<lparr>image_paths = paths, instruction = i, model = m, aspect_ratio = ''1:1'',
                 image_size = ''1K'', output_dir = ''.''\<rparr>
      else None)"
    by (cases m)
       (auto simp: compose_schema_def z_string_array_strings z_string_min_def
          z_model_def z_enum_default_def z_string_default_def Suc_le_eq)
qed

theorem compose_images_bounds_witness:
  "call_compose_images posix
       (JObj [(''image_paths'', JArr (replicate 15 (JStr ''/in/cat.jpg''))),
              (''instruction'', JStr ''blend these''), (''model'', JStr ''pro'')])
       (sample_world (Rejected ''fetch failed'')) =
     (InvalidArguments, sample_world (Rejected ''fetch failed'')) \<and>
   call_compose_images posix
       (JObj [(''image_paths'', JArr []),
              (''instruction'', JStr ''blend these''), (''model'', JStr ''flash'')])
       (sample_world (Rejected ''fetch failed'')) =
     (InvalidArguments, sample_world (Rejected ''fetch failed'')) \<and>
   compose_schema
       (JObj [(''image_paths'', JArr (map JStr (replicate 14 ''/in/cat.jpg''))),
              (''instruction'', JStr ''blend these''), (''model'', JStr (choice_name flash))]) =
     Some \<lparr>image_paths = replicate 14 ''/in/cat.jpg'', instruction = ''blend these'', model = flash,
           aspect_ratio = ''1:1'', image_size = ''1K'', output_dir = ''.''\<rparr>"
  using compose_images_bounds
          [of "JObj [(''image_paths'', JArr (replicate 15 (JStr ''/in/cat.jpg''))),
                     (''instruction'', JStr ''blend these''), (''model'', JStr ''pro'')]"
              posix "sample_world (Rejected ''fetch failed'')" "replicate 14 ''/in/cat.jpg''"
              "''blend these''" flash]
        compose_images_bounds
          [of "JObj [(''image_paths'', JArr []),
                     (''instruction'', JStr ''blend these''), (''model'', JStr ''flash'')]"
              posix "sample_world (Rejected ''fetch failed'')"]
  by simp

end
